theory Spec2Isabelle
  imports Main "HOL-Library.Sublist"
begin

section \<open>Values of the notebook\<close>

text \<open>
  The notebook \<^verbatim>\<open>main.ipynb\<close> is a sequence of code cells. Each cell builds a
  few Python values (strings, dict literals), hands them to the OpenAI SDK or to
  \<^verbatim>\<open>requests.put\<close>, and prints what comes back. The model keeps these values
  as they are written: dict literals are association lists in source order, an
  \<^verbatim>\<open>Optional[str]\<close> is a \<open>string option\<close>, bytes are strings.
\<close>

type_synonym bytes = string

datatype json =
    JNull
  | JBool bool
  | JInt int
  | JStr string
  | JArr "json list"
  | JObj "(string \<times> json) list"

datatype pyerror =
    NameError string
  | IndexError
  | OSError string
  | SDKError string
  | OpenAIError string
  | ValueError string
  | RequestsError string
  | JSONDecodeError

text \<open>\<^verbatim>\<open>str(v)\<close>, \<^verbatim>\<open>'{}'.format(v)\<close> and \<^verbatim>\<open>f'{v}'\<close> for the value of
  \<^verbatim>\<open>os.getenv\<close>, which is \<^verbatim>\<open>None\<close> when the variable is not set.\<close>

definition py_str :: "string option \<Rightarrow> string" where
  "py_str v = (case v of None \<Rightarrow> ''None'' | Some s \<Rightarrow> s)"

text \<open>\<^verbatim>\<open>xs[0]\<close>\<close>

definition index0 :: "'a list \<Rightarrow> pyerror + 'a" where
  "index0 xs = (case xs of [] \<Rightarrow> Inl IndexError | x # _ \<Rightarrow> Inr x)"

subsection \<open>Objects returned by the SDK and by requests\<close>

text \<open>Only the attributes the notebook reads, and \<open>fine_tuned_model\<close>, which its
  text tells the reader to copy by hand.\<close>

record file_object =
  f_id :: string
  f_filename :: string

record ft_job =
  j_id :: string
  j_status :: string
  j_fine_tuned_model :: "string option"
  j_result_files :: "string list"

datatype page = Page "json list"

record chat_completion =
  choices :: "string option list"

record http_response =
  status_code :: int
  reason :: string
  json_body :: "json option"

record client =
  azure_endpoint :: "string option"
  api_key :: "string option"
  api_version :: "string option"

text \<open>The arguments of \<^verbatim>\<open>requests.put(url, params=, headers=, data=, json=)\<close>.
  \<open>Data d\<close> is \<^verbatim>\<open>data=json.dumps(d)\<close>, \<open>Json d\<close> is \<^verbatim>\<open>json=d\<close>; the
  serialisation itself is done by the library.\<close>

datatype body = Data json | Json json

record http_request =
  meth :: string
  url :: string
  params :: "(string \<times> string) list"
  headers :: "(string \<times> string) list"
  body :: body

subsection \<open>Remote calls\<close>

text \<open>One constructor per SDK or HTTP operation the notebook calls, with the
  arguments as passed and the outcome: \<open>Inl\<close> is the exception the call raised.
  Keyword arguments of \<^verbatim>\<open>jobs.create\<close> are kept as the list of keywords written
  at the call site.\<close>

datatype call =
    FilesCreate client "string \<times> bytes" string "pyerror + file_object"
  | JobsCreate client "(string \<times> json) list" "pyerror + ft_job"
  | JobsRetrieve client string "pyerror + ft_job"
  | JobsListEvents client string int "pyerror + page"
  | RequestsPut http_request "pyerror + http_response"
  | ChatCreate client string "json list" "pyerror + chat_completion"
  | FilesRetrieve client string "pyerror + file_object"
  | FilesContent client string "pyerror + bytes"

text \<open>Everything behind the SDK and \<^verbatim>\<open>requests\<close>: the libraries and the Azure
  services. It is a parameter of the model. Each answer may depend on all calls
  made so far, so the same request can be answered differently over time.
  \<open>azure_openai_init\<close> is the check that the constructor \<^verbatim>\<open>AzureOpenAI(...)\<close> of the
  SDK runs on what it is given: \<open>Some e\<close> when it raises \<open>e\<close>, as it does when it
  finds no credentials, no API version or no endpoint.\<close>

record remote =
  azure_openai_init :: "client \<Rightarrow> pyerror option"
  files_create :: "call list \<Rightarrow> client \<Rightarrow> string \<times> bytes \<Rightarrow> string \<Rightarrow> pyerror + file_object"
  jobs_create :: "call list \<Rightarrow> client \<Rightarrow> (string \<times> json) list \<Rightarrow> pyerror + ft_job"
  jobs_retrieve :: "call list \<Rightarrow> client \<Rightarrow> string \<Rightarrow> pyerror + ft_job"
  jobs_list_events :: "call list \<Rightarrow> client \<Rightarrow> string \<Rightarrow> int \<Rightarrow> pyerror + page"
  requests_put :: "call list \<Rightarrow> http_request \<Rightarrow> pyerror + http_response"
  chat_create :: "call list \<Rightarrow> client \<Rightarrow> string \<Rightarrow> json list \<Rightarrow> pyerror + chat_completion"
  files_retrieve :: "call list \<Rightarrow> client \<Rightarrow> string \<Rightarrow> pyerror + file_object"
  files_content :: "call list \<Rightarrow> client \<Rightarrow> string \<Rightarrow> pyerror + bytes"

text \<open>The machine the notebook runs on: environment variables, and which paths
  \<^verbatim>\<open>open(path, "wb")\<close> can create.\<close>

record host =
  getenv :: "string \<Rightarrow> string option"
  writable :: "string \<Rightarrow> bool"

subsection \<open>Output\<close>

text \<open>An argument of \<^verbatim>\<open>print\<close>. \<open>PJobDump\<close> and \<open>PPageDump\<close> stand for
  \<^verbatim>\<open>model_dump_json(indent=2)\<close> of the object, \<open>PResponse\<close> for the repr of a
  \<^verbatim>\<open>requests\<close> response, \<open>PCat\<close> for an f-string with substituted values.\<close>

datatype printed =
    PStr string
  | PNone
  | PInt int
  | PJson json
  | PResponse http_response
  | PJobDump ft_job
  | PPageDump page
  | PCat "printed list"

section \<open>Effects\<close>

text \<open>The state a cell can change: the calls issued so far with their outcomes,
  the lines printed (each the argument list of one \<^verbatim>\<open>print\<close>), and the local
  file system.\<close>

record world =
  trace :: "call list"
  stdout :: "printed list list"
  fs :: "string \<rightharpoonup> bytes"

type_synonym 'a prog = "world \<Rightarrow> (pyerror + 'a) \<times> world"

definition ret :: "'a \<Rightarrow> 'a prog" where
  "ret x w = (Inr x, w)"

definition py_raise :: "pyerror \<Rightarrow> 'a prog" where
  "py_raise e w = (Inl e, w)"

text \<open>Statement sequencing: an exception ends the run.\<close>

definition seq :: "'a prog \<Rightarrow> ('a \<Rightarrow> 'b prog) \<Rightarrow> 'b prog" where
  "seq m f w = (case m w of (Inl e, w') \<Rightarrow> (Inl e, w') | (Inr x, w') \<Rightarrow> f x w')"

definition lift :: "pyerror + 'a \<Rightarrow> 'a prog" where
  "lift r w = (r, w)"

definition py_print :: "printed list \<Rightarrow> unit prog" where
  "py_print args w = (Inr (), w\<lparr>stdout := stdout w @ [args]\<rparr>)"

definition open_rb :: "string \<Rightarrow> bytes prog" where
  "open_rb name w = (case fs w name of None \<Rightarrow> (Inl (OSError name), w) | Some b \<Rightarrow> (Inr b, w))"

text \<open>\<^verbatim>\<open>open(name, "wb")\<close> creates or truncates the file.\<close>

definition open_wb :: "host \<Rightarrow> string \<Rightarrow> unit prog" where
  "open_wb H name w =
     (if writable H name then (Inr (), w\<lparr>fs := (fs w)(name \<mapsto> [])\<rparr>) else (Inl (OSError name), w))"

definition file_write :: "string \<Rightarrow> bytes \<Rightarrow> unit prog" where
  "file_write name b w = (Inr (), w\<lparr>fs := (fs w)(name \<mapsto> (case fs w name of None \<Rightarrow> b | Some old \<Rightarrow> old @ b))\<rparr>)"

text \<open>Each wrapper asks the remote side once and records the call.\<close>

definition client_files_create :: "remote \<Rightarrow> client \<Rightarrow> string \<times> bytes \<Rightarrow> string \<Rightarrow> file_object prog" where
  "client_files_create R c f p w =
     (let r = files_create R (trace w) c f p in (r, w\<lparr>trace := trace w @ [FilesCreate c f p r]\<rparr>))"

definition client_jobs_create :: "remote \<Rightarrow> client \<Rightarrow> (string \<times> json) list \<Rightarrow> ft_job prog" where
  "client_jobs_create R c kw w =
     (let r = jobs_create R (trace w) c kw in (r, w\<lparr>trace := trace w @ [JobsCreate c kw r]\<rparr>))"

definition client_jobs_retrieve :: "remote \<Rightarrow> client \<Rightarrow> string \<Rightarrow> ft_job prog" where
  "client_jobs_retrieve R c jid w =
     (let r = jobs_retrieve R (trace w) c jid in (r, w\<lparr>trace := trace w @ [JobsRetrieve c jid r]\<rparr>))"

definition client_jobs_list_events :: "remote \<Rightarrow> client \<Rightarrow> string \<Rightarrow> int \<Rightarrow> page prog" where
  "client_jobs_list_events R c jid lim w =
     (let r = jobs_list_events R (trace w) c jid lim in (r, w\<lparr>trace := trace w @ [JobsListEvents c jid lim r]\<rparr>))"

definition requests_put_call :: "remote \<Rightarrow> http_request \<Rightarrow> http_response prog" where
  "requests_put_call R q w =
     (let r = requests_put R (trace w) q in (r, w\<lparr>trace := trace w @ [RequestsPut q r]\<rparr>))"

definition client_chat_create :: "remote \<Rightarrow> client \<Rightarrow> string \<Rightarrow> json list \<Rightarrow> chat_completion prog" where
  "client_chat_create R c m msgs w =
     (let r = chat_create R (trace w) c m msgs in (r, w\<lparr>trace := trace w @ [ChatCreate c m msgs r]\<rparr>))"

definition client_files_retrieve :: "remote \<Rightarrow> client \<Rightarrow> string \<Rightarrow> file_object prog" where
  "client_files_retrieve R c fid w =
     (let r = files_retrieve R (trace w) c fid in (r, w\<lparr>trace := trace w @ [FilesRetrieve c fid r]\<rparr>))"

definition client_files_content :: "remote \<Rightarrow> client \<Rightarrow> string \<Rightarrow> bytes prog" where
  "client_files_content R c fid w =
     (let r = files_content R (trace w) c fid in (r, w\<lparr>trace := trace w @ [FilesContent c fid r]\<rparr>))"

text \<open>The keyword arguments of \<^verbatim>\<open>AzureOpenAI(azure_endpoint=os.getenv("AZURE_OPENAI_ENDPOINT"),
  api_key=os.getenv("AZURE_OPENAI_API_KEY"), api_version=os.getenv("API_VERSION"))\<close>,
  written three times in the notebook.\<close>

definition client_kwargs :: "host \<Rightarrow> client" where
  "client_kwargs H =
     \<lparr>azure_endpoint = getenv H ''AZURE_OPENAI_ENDPOINT'',
      api_key = getenv H ''AZURE_OPENAI_API_KEY'',
      api_version = getenv H ''API_VERSION''\<rparr>"

text \<open>The constructor call: it raises, and the cell ends before any request, when
  the SDK rejects the arguments.\<close>

definition AzureOpenAI :: "host \<Rightarrow> remote \<Rightarrow> client prog" where
  "AzureOpenAI H R =
     (case azure_openai_init R (client_kwargs H) of
        Some e \<Rightarrow> py_raise e
      | None \<Rightarrow> ret (client_kwargs H))"

section \<open>The cells\<close>

subsection \<open>Upload your training data\<close>

text \<open>Binds \<open>client\<close>, \<open>training_file_id\<close> and \<open>validation_file_id\<close>.\<close>

definition upload_cell :: "host \<Rightarrow> remote \<Rightarrow> (client \<times> string \<times> string) prog" where
  "upload_cell H R =
     seq (AzureOpenAI H R) (\<lambda>client.
     (let training_file_name = ''training_set.jsonl'';
          validation_file_name = ''validation_set.jsonl''
      in seq (open_rb training_file_name) (\<lambda>tf.
         seq (client_files_create R client (training_file_name, tf) ''fine-tune'') (\<lambda>training_response.
         let training_file_id = f_id training_response
         in seq (open_rb validation_file_name) (\<lambda>vf.
            seq (client_files_create R client (validation_file_name, vf) ''fine-tune'') (\<lambda>validation_response.
            let validation_file_id = f_id validation_response
            in seq (py_print [PStr ''Training file ID:'', PStr training_file_id]) (\<lambda>_.
               seq (py_print [PStr ''Validation file ID:'', PStr validation_file_id]) (\<lambda>_.
               ret (client, training_file_id, validation_file_id)))))))))"

subsection \<open>Create a customised model\<close>

definition json_opt :: "string option \<Rightarrow> json" where
  "json_opt v = (case v of None \<Rightarrow> JNull | Some s \<Rightarrow> JStr s)"

text \<open>The keyword arguments of the first \<^verbatim>\<open>jobs.create\<close>.\<close>

definition create_kwargs :: "host \<Rightarrow> string \<Rightarrow> string \<Rightarrow> (string \<times> json) list" where
  "create_kwargs H training_file_id validation_file_id =
     [(''training_file'', JStr training_file_id),
      (''validation_file'', JStr validation_file_id),
      (''model'', json_opt (getenv H ''MODEL_NAME'')),
      (''seed'', JInt 105)]"

text \<open>Binds \<open>job_id\<close>.\<close>

definition create_cell :: "host \<Rightarrow> remote \<Rightarrow> client \<Rightarrow> string \<Rightarrow> string \<Rightarrow> string prog" where
  "create_cell H R client training_file_id validation_file_id =
     seq (client_jobs_create R client (create_kwargs H training_file_id validation_file_id)) (\<lambda>response.
     let job_id = j_id response
     in seq (py_print [PStr ''Job ID:'', PStr (j_id response)]) (\<lambda>_.
        seq (py_print [PStr ''Status:'', PStr (j_id response)]) (\<lambda>_.
        seq (py_print [PJobDump response]) (\<lambda>_.
        ret job_id))))"

text \<open>The keyword arguments of the second \<^verbatim>\<open>jobs.create\<close>.\<close>

definition hyperparameters_kwargs :: "host \<Rightarrow> string \<Rightarrow> (string \<times> json) list" where
  "hyperparameters_kwargs H training_file_id =
     [(''training_file'', JStr training_file_id),
      (''model'', json_opt (getenv H ''MODEL_NAME'')),
      (''hyperparameters'', JObj [(''n_epochs'', JInt 2)])]"

text \<open>Rebinds \<open>client\<close>; the job returned is the value of the cell and is bound
  to no name.\<close>

definition hyperparameters_cell :: "host \<Rightarrow> remote \<Rightarrow> string \<Rightarrow> (client \<times> ft_job) prog" where
  "hyperparameters_cell H R training_file_id =
     seq (AzureOpenAI H R) (\<lambda>client.
     seq (client_jobs_create R client (hyperparameters_kwargs H training_file_id)) (\<lambda>job.
     ret (client, job)))"

subsection \<open>Status, events, checkpoints\<close>

definition status_cell :: "remote \<Rightarrow> client \<Rightarrow> string \<Rightarrow> unit prog" where
  "status_cell R client job_id =
     seq (client_jobs_retrieve R client job_id) (\<lambda>response.
     seq (py_print [PStr ''Job ID:'', PStr (j_id response)]) (\<lambda>_.
     seq (py_print [PStr ''Status:'', PStr (j_status response)]) (\<lambda>_.
     py_print [PJobDump response])))"

definition events_cell :: "remote \<Rightarrow> client \<Rightarrow> string \<Rightarrow> unit prog" where
  "events_cell R client job_id =
     seq (client_jobs_list_events R client job_id 10) (\<lambda>response.
     py_print [PPageDump response])"

text \<open>The cell under the heading Checkpoints, introduced by ``You can run the list
  checkpoints command to retrieve the list of checkpoints associated with an
  individual fine-tuning job''.\<close>

definition checkpoints_cell :: "remote \<Rightarrow> client \<Rightarrow> string \<Rightarrow> unit prog" where
  "checkpoints_cell R client job_id =
     seq (client_jobs_list_events R client job_id 10) (\<lambda>response.
     py_print [PPageDump response])"

subsection \<open>Deployment\<close>

definition deploy_params :: "(string \<times> string) list" where
  "deploy_params = [(''api-version'', ''2023-05-01'')]"

definition deploy_headers :: "string option \<Rightarrow> (string \<times> string) list" where
  "deploy_headers token =
     [(''Authorization'', ''Bearer '' @ py_str token), (''Content-Type'', ''application/json'')]"

definition request_url :: "string \<Rightarrow> string \<Rightarrow> string \<Rightarrow> string \<Rightarrow> string" where
  "request_url subscription resource_group resource_name model_deployment_name =
     ''https://management.azure.com/subscriptions/'' @ subscription @ ''/resourceGroups/'' @ resource_group
       @ ''/providers/Microsoft.CognitiveServices/accounts/'' @ resource_name
       @ ''/deployments/'' @ model_deployment_name"

text \<open>In the notebook the value of \<open>"name"\<close> is the placeholder
  \<^verbatim>\<open><"fine_tuned_model">\<close>, which the reader replaces by a string before the cell
  can run (the README prints the cell with the string \<^verbatim>\<open>"<fine_tuned_model>"\<close>). The
  string put there is the parameter \<open>fine_tuned_model\<close>.\<close>

definition deploy_data :: "string \<Rightarrow> json" where
  "deploy_data fine_tuned_model =
     JObj [(''sku'', JObj [(''name'', JStr ''standard''), (''capacity'', JInt 1)]),
           (''properties'', JObj [(''model'', JObj
              [(''format'', JStr ''OpenAI''),
               (''name'', JStr fine_tuned_model),
               (''version'', JStr ''1'')])])]"

definition deploy_request :: "host \<Rightarrow> string \<Rightarrow> http_request" where
  "deploy_request H fine_tuned_model =
     (let token = getenv H ''TOKEN'';
          subscription = getenv H ''SUBSCRIPTION_ID'';
          resource_group = getenv H ''RESOURCE_GROUP_NAME'';
          resource_name = getenv H ''AZURE_OPENAI_RESOURCE_NAME'';
          model_deployment_name = ''gpt-35-turbo-ft''
      in \<lparr>meth = ''PUT'',
          url = request_url (py_str subscription) (py_str resource_group) (py_str resource_name) model_deployment_name,
          params = deploy_params,
          headers = deploy_headers token,
          body = Data (deploy_data fine_tuned_model)\<rparr>)"

text \<open>\<^verbatim>\<open>r.json()\<close>\<close>

definition response_json :: "http_response \<Rightarrow> json prog" where
  "response_json r = lift (case json_body r of None \<Rightarrow> Inl JSONDecodeError | Some j \<Rightarrow> Inr j)"

definition put_and_print :: "remote \<Rightarrow> http_request \<Rightarrow> unit prog" where
  "put_and_print R q =
     seq (py_print [PStr ''Creating a new deployment...'']) (\<lambda>_.
     seq (requests_put_call R q) (\<lambda>r.
     seq (py_print [PResponse r]) (\<lambda>_.
     seq (py_print [PStr (reason r)]) (\<lambda>_.
     seq (response_json r) (\<lambda>j.
     py_print [PJson j])))))"

definition deploy_cell :: "host \<Rightarrow> remote \<Rightarrow> string \<Rightarrow> unit prog" where
  "deploy_cell H R fine_tuned_model = put_and_print R (deploy_request H fine_tuned_model)"

subsection \<open>Cross region deployment\<close>

definition cross_region_source :: string where
  "cross_region_source =
     (let source_subscription = ''<SOURCE_SUBSCRIPTION_ID>'';
          source_resource_group = ''<SOURCE_RESOURCE_GROUP>'';
          source_resource = ''<SOURCE_RESOURCE>''
      in ''/subscriptions/'' @ source_subscription @ ''/resourceGroups/'' @ source_resource_group
           @ ''/providers/Microsoft.CognitiveServices/accounts/'' @ source_resource)"

text \<open>Here the placeholder is \<^verbatim>\<open><"FINE_TUNED_MODEL_NAME">\<close>.\<close>

definition deploy_data_cross_region :: "string \<Rightarrow> json" where
  "deploy_data_cross_region fine_tuned_model_name =
     JObj [(''sku'', JObj [(''name'', JStr ''standard''), (''capacity'', JInt 1)]),
           (''properties'', JObj [(''model'', JObj
              [(''format'', JStr ''OpenAI''),
               (''name'', JStr fine_tuned_model_name),
               (''version'', JStr ''1''),
               (''source'', JStr cross_region_source)])])]"

definition cross_region_request :: "host \<Rightarrow> string \<Rightarrow> http_request" where
  "cross_region_request H fine_tuned_model_name =
     (let token = getenv H ''<TOKEN>'';
          subscription = ''<DESTINATION_SUBSCRIPTION_ID>'';
          resource_group = ''<DESTINATION_RESOURCE_GROUP_NAME>'';
          resource_name = ''<DESTINATION_AZURE_OPENAI_RESOURCE_NAME>'';
          model_deployment_name = ''gpt-35-turbo-ft''
      in \<lparr>meth = ''PUT'',
          url = request_url subscription resource_group resource_name model_deployment_name,
          params = deploy_params,
          headers = deploy_headers token,
          body = Data (deploy_data_cross_region fine_tuned_model_name)\<rparr>)"

definition cross_region_cell :: "host \<Rightarrow> remote \<Rightarrow> string \<Rightarrow> unit prog" where
  "cross_region_cell H R fine_tuned_model_name = put_and_print R (cross_region_request H fine_tuned_model_name)"

subsection \<open>Cross tenant deployment\<close>

definition fine_tuned_model :: string where
  "fine_tuned_model = ''gpt-4o-mini-2024-07-18.ft-f8838e7c6d4a4cbe882a002815758510''"

definition dest_token :: string where
  "dest_token = ''DESTINATION-ACCESS-TOKEN''"

definition source_token :: string where
  "source_token = ''SOURCE-ACCESS-TOKEN''"

definition cross_tenant_headers :: "(string \<times> string) list" where
  "cross_tenant_headers =
     [(''Authorization'', ''Bearer '' @ dest_token),
      (''x-ms-authorization-auxiliary'', ''Bearer '' @ source_token),
      (''Content-Type'', ''application/json'')]"

definition cross_tenant_url :: string where
  "cross_tenant_url =
     (let subscription = ''DESTINATION-SUBSCRIPTION-ID'';
          resource_group = ''DESTINATION-RESOURCE-GROUP'';
          resource_name = ''DESTINATION-AZURE-OPENAI-RESOURCE-NAME'';
          model_deployment_name = ''DESTINATION-MODEL-DEPLOYMENT-NAME''
      in ''https://management.azure.com/subscriptions/'' @ subscription @ ''/resourceGroups/'' @ resource_group
           @ ''/providers/Microsoft.CognitiveServices/accounts/'' @ resource_name
           @ ''/deployments/'' @ model_deployment_name @ ''?api-version=2024-10-01'')"

definition payload :: json where
  "payload =
     (let source_subscription_id = ''SOURCE-SUBSCRIPTION-ID'';
          source_resource_group = ''SOURCE-RESOURCE-GROUP'';
          source_account = ''SOURCE-AZURE-OPENAI-RESOURCE-NAME''
      in JObj [(''sku'', JObj [(''name'', JStr ''standard''), (''capacity'', JInt 1)]),
               (''properties'', JObj [(''model'', JObj
                  [(''format'', JStr ''OpenAI''),
                   (''name'', JStr fine_tuned_model),
                   (''version'', JStr ''1''),
                   (''sourceAccount'', JStr (''/subscriptions/'' @ source_subscription_id
                       @ ''/resourceGroups/'' @ source_resource_group
                       @ ''/providers/Microsoft.CognitiveServices/accounts/'' @ source_account))])])])"

definition cross_tenant_request :: http_request where
  "cross_tenant_request =
     \<lparr>meth = ''PUT'', url = cross_tenant_url, params = [], headers = cross_tenant_headers, body = Json payload\<rparr>"

definition cross_tenant_cell :: "remote \<Rightarrow> unit prog" where
  "cross_tenant_cell R =
     seq (requests_put_call R cross_tenant_request) (\<lambda>response.
     seq (py_print [PCat [PStr ''Status Code: '', PInt (status_code response)]]) (\<lambda>_.
     seq (response_json response) (\<lambda>j.
     py_print [PCat [PStr ''Response: '', PJson j]])))"

subsection \<open>Use a deployed customised model\<close>

definition messages :: "json list" where
  "messages =
     [JObj [(''role'', JStr ''system''), (''content'', JStr ''You are a helpful assistant.'')],
      JObj [(''role'', JStr ''user''), (''content'', JStr ''Does Azure OpenAI support customer managed keys?'')],
      JObj [(''role'', JStr ''assistant''), (''content'', JStr ''Yes, customer managed keys are supported by Azure OpenAI.'')],
      JObj [(''role'', JStr ''user''), (''content'', JStr ''Do other Azure AI services support this too?'')]]"

text \<open>Rebinds \<open>client\<close>.\<close>

definition use_cell :: "host \<Rightarrow> remote \<Rightarrow> client prog" where
  "use_cell H R =
     seq (AzureOpenAI H R) (\<lambda>client.
     seq (client_chat_create R client ''gpt-35-turbo-ft'' messages) (\<lambda>response.
     seq (lift (index0 (choices response))) (\<lambda>content.
     seq (py_print [case content of None \<Rightarrow> PNone | Some s \<Rightarrow> PStr s]) (\<lambda>_.
     ret client))))"

subsection \<open>Analyze your customised model\<close>

text \<open>\<open>result_file_id\<close> is the binding of that name when the cell starts: \<open>None\<close>
  when the name is not bound. Reading an unbound name raises \<open>NameError\<close>.\<close>

definition read_name :: "string \<Rightarrow> 'a option \<Rightarrow> 'a prog" where
  "read_name n v = (case v of None \<Rightarrow> py_raise (NameError n) | Some x \<Rightarrow> ret x)"

definition analysis_cell :: "host \<Rightarrow> remote \<Rightarrow> client \<Rightarrow> string \<Rightarrow> string option \<Rightarrow> unit prog" where
  "analysis_cell H R client job_id result_file_id =
     seq (client_jobs_retrieve R client job_id) (\<lambda>response.
     seq (if j_status response = ''succeeded''
          then seq (lift (index0 (j_result_files response))) (\<lambda>x. ret (Some x))
          else ret result_file_id) (\<lambda>result_file_id.
     seq (read_name ''result_file_id'' result_file_id) (\<lambda>fid.
     seq (client_files_retrieve R client fid) (\<lambda>retrieve.
     seq (read_name ''result_file_id'' result_file_id) (\<lambda>fid.
     seq (py_print [PStr (''Downloading result file: '' @ fid)]) (\<lambda>_.
     seq (open_wb H (f_filename retrieve)) (\<lambda>_.
     seq (read_name ''result_file_id'' result_file_id) (\<lambda>fid.
     seq (client_files_content R client fid) (\<lambda>result.
     file_write (f_filename retrieve) result)))))))))"

section \<open>The notebook\<close>

text \<open>The cells in order, each reading the names bound by the cells before it.
  No cell before the last one binds \<open>result_file_id\<close>. The two strings are what
  the reader put in place of the two placeholders.\<close>

definition notebook :: "host \<Rightarrow> remote \<Rightarrow> string \<Rightarrow> string \<Rightarrow> unit prog" where
  "notebook H R name1 name2 =
     seq (upload_cell H R) (\<lambda>(client, training_file_id, validation_file_id).
     seq (create_cell H R client training_file_id validation_file_id) (\<lambda>job_id.
     seq (hyperparameters_cell H R training_file_id) (\<lambda>(client, _).
     seq (status_cell R client job_id) (\<lambda>_.
     seq (events_cell R client job_id) (\<lambda>_.
     seq (checkpoints_cell R client job_id) (\<lambda>_.
     seq (deploy_cell H R name1) (\<lambda>_.
     seq (cross_region_cell H R name2) (\<lambda>_.
     seq (cross_tenant_cell R) (\<lambda>_.
     seq (use_cell H R) (\<lambda>client.
     analysis_cell H R client job_id None))))))))))"

definition world0 :: "(string \<rightharpoonup> bytes) \<Rightarrow> world" where
  "world0 files = \<lparr>trace = [], stdout = [], fs = files\<rparr>"

section \<open>Reading requests and traces\<close>

text \<open>The functions of this section are not part of the notebook: they read the
  values it builds and the calls it makes, so that properties can be stated.\<close>

subsection \<open>Request bodies\<close>

fun json_get :: "string \<Rightarrow> json \<Rightarrow> json option" where
  "json_get k (JObj kvs) = map_of kvs k"
| "json_get k _ = None"

fun json_path :: "string list \<Rightarrow> json \<Rightarrow> json option" where
  "json_path [] j = Some j"
| "json_path (k # ks) j = (case json_get k j of None \<Rightarrow> None | Some j' \<Rightarrow> json_path ks j')"

fun json_keys :: "json \<Rightarrow> string list" where
  "json_keys (JObj kvs) = map fst kvs"
| "json_keys _ = []"

fun body_json :: "body \<Rightarrow> json" where
  "body_json (Data j) = j"
| "body_json (Json j) = j"

definition body_at :: "string list \<Rightarrow> http_request \<Rightarrow> json option" where
  "body_at ks q = json_path ks (body_json (body q))"

definition keys_at :: "string list \<Rightarrow> http_request \<Rightarrow> string list option" where
  "keys_at ks q = map_option json_keys (body_at ks q)"

definition model_name :: "http_request \<Rightarrow> json option" where
  "model_name q = body_at [''properties'', ''model'', ''name''] q"

text \<open>The ARM resource ID of a Cognitive Services account.\<close>

definition arm_account_id :: "string \<Rightarrow> string \<Rightarrow> string \<Rightarrow> string" where
  "arm_account_id subscription resource_group account =
     ''/subscriptions/'' @ subscription @ ''/resourceGroups/'' @ resource_group
       @ ''/providers/Microsoft.CognitiveServices/accounts/'' @ account"

subsection \<open>Query strings\<close>

fun split_on :: "char \<Rightarrow> string \<Rightarrow> string list" where
  "split_on c [] = [[]]"
| "split_on c (x # xs) =
     (if x = c then [] # split_on c xs
      else (case split_on c xs of [] \<Rightarrow> [[x]] | y # ys \<Rightarrow> (x # y) # ys))"

definition key_value :: "string \<Rightarrow> string \<times> string" where
  "key_value s = (takeWhile (\<lambda>c. c \<noteq> CHR ''='') s, drop 1 (dropWhile (\<lambda>c. c \<noteq> CHR ''='') s))"

definition url_query :: "string \<Rightarrow> (string \<times> string) list" where
  "url_query u =
     (case dropWhile (\<lambda>c. c \<noteq> CHR ''?'') u of [] \<Rightarrow> [] | _ # q \<Rightarrow> map key_value (split_on CHR ''&'' q))"

text \<open>The query parameters of the request that goes out: those written in the
  URL, followed by the \<^verbatim>\<open>params=\<close> argument, which \<^verbatim>\<open>requests\<close> appends.\<close>

definition query_params :: "http_request \<Rightarrow> (string \<times> string) list" where
  "query_params q = url_query (url q) @ params q"

subsection \<open>Traces\<close>

datatype operation =
    OpFilesCreate | OpJobsCreate | OpJobsRetrieve | OpJobsListEvents
  | OpRequestsPut | OpChatCreate | OpFilesRetrieve | OpFilesContent

fun op_of :: "call \<Rightarrow> operation" where
  "op_of (FilesCreate _ _ _ _) = OpFilesCreate"
| "op_of (JobsCreate _ _ _) = OpJobsCreate"
| "op_of (JobsRetrieve _ _ _) = OpJobsRetrieve"
| "op_of (JobsListEvents _ _ _ _) = OpJobsListEvents"
| "op_of (RequestsPut _ _) = OpRequestsPut"
| "op_of (ChatCreate _ _ _ _) = OpChatCreate"
| "op_of (FilesRetrieve _ _ _) = OpFilesRetrieve"
| "op_of (FilesContent _ _ _) = OpFilesContent"

text \<open>A call failed when it raised.\<close>

fun failed :: "call \<Rightarrow> bool" where
  "failed (FilesCreate _ _ _ r) = isl r"
| "failed (JobsCreate _ _ r) = isl r"
| "failed (JobsRetrieve _ _ r) = isl r"
| "failed (JobsListEvents _ _ _ r) = isl r"
| "failed (RequestsPut _ r) = isl r"
| "failed (ChatCreate _ _ _ r) = isl r"
| "failed (FilesRetrieve _ _ r) = isl r"
| "failed (FilesContent _ _ r) = isl r"

text \<open>The remote operations of the notebook, one per call statement, in the order
  of the cells: two uploads; two job creations; status; events; checkpoints; three
  deployments; chat completion; and the three calls of the analysis cell.\<close>

definition notebook_ops :: "operation list" where
  "notebook_ops =
     [OpFilesCreate, OpFilesCreate, OpJobsCreate, OpJobsCreate, OpJobsRetrieve,
      OpJobsListEvents, OpJobsListEvents, OpRequestsPut, OpRequestsPut, OpRequestsPut,
      OpChatCreate, OpJobsRetrieve, OpFilesRetrieve, OpFilesContent]"

text \<open>Identifiers produced: the IDs of the files and of the jobs that the service
  returned, in the order of the calls, and the \<open>fine_tuned_model\<close> of the jobs
  retrieved.\<close>

fun uploaded1 :: "call \<Rightarrow> string list" where
  "uploaded1 (FilesCreate _ _ _ (Inr f)) = [f_id f]"
| "uploaded1 _ = []"

definition uploaded :: "call list \<Rightarrow> string list" where
  "uploaded tr = concat (map uploaded1 tr)"

fun created1 :: "call \<Rightarrow> string list" where
  "created1 (JobsCreate _ _ (Inr j)) = [j_id j]"
| "created1 _ = []"

definition created :: "call list \<Rightarrow> string list" where
  "created tr = concat (map created1 tr)"

fun retrieved_models1 :: "call \<Rightarrow> string option list" where
  "retrieved_models1 (JobsRetrieve _ _ (Inr j)) = [j_fine_tuned_model j]"
| "retrieved_models1 _ = []"

definition retrieved_models :: "call list \<Rightarrow> string option list" where
  "retrieved_models tr = concat (map retrieved_models1 tr)"

text \<open>The model names in the deployment bodies.\<close>

fun deployed_names1 :: "call \<Rightarrow> json option list" where
  "deployed_names1 (RequestsPut q _) = [model_name q]"
| "deployed_names1 _ = []"

definition deployed_names :: "call list \<Rightarrow> json option list" where
  "deployed_names tr = concat (map deployed_names1 tr)"

subsection \<open>Specifications of programs\<close>

text \<open>\<open>single_shot m ops\<close>: whatever the remote side answers, \<open>m\<close> extends the trace
  by calls of the operations \<open>ops\<close>, in that order and one call each, up to the
  point where it stops; it runs through all of them when it returns, and no call
  before the last one it made has failed.\<close>

definition single_shot :: "'a prog \<Rightarrow> operation list \<Rightarrow> bool" where
  "single_shot m ops =
     (\<forall>w. \<exists>ext. trace (snd (m w)) = trace w @ ext \<and>
        (case fst (m w) of
           Inl _ \<Rightarrow> prefix (map op_of ext) ops \<and> list_all (\<lambda>c. \<not> failed c) (butlast ext)
         | Inr _ \<Rightarrow> map op_of ext = ops \<and> list_all (\<lambda>c. \<not> failed c) ext))"

text \<open>What a call passes on: the \<open>training_file\<close> and \<open>validation_file\<close>
  arguments of a job creation (\<open>None\<close> when the keyword is not passed), the job ID
  given to a retrieve or list-events call, the model name in a deployment body.\<close>

datatype passed =
    Uploads
  | Creates "json option" "json option"
  | Retrieves string
  | ListsEvents string
  | DeploysModel "json option"
  | Other

fun passed_of :: "call \<Rightarrow> passed" where
  "passed_of (FilesCreate _ _ _ _) = Uploads"
| "passed_of (JobsCreate _ kw _) = Creates (map_of kw ''training_file'') (map_of kw ''validation_file'')"
| "passed_of (JobsRetrieve _ jid _) = Retrieves jid"
| "passed_of (JobsListEvents _ jid _ _) = ListsEvents jid"
| "passed_of (RequestsPut q _) = DeploysModel (model_name q)"
| "passed_of _ = Other"

text \<open>What the calls of the notebook pass on, call by call, when the uploads
  returned the file IDs \<open>t\<close> and \<open>v\<close>, the first job creation returned the job ID
  \<open>jid\<close>, and \<open>n1\<close> and \<open>n2\<close> are the strings put in the two placeholders.\<close>

definition script :: "string \<Rightarrow> string \<Rightarrow> string \<Rightarrow> string \<Rightarrow> string \<Rightarrow> passed list" where
  "script t v jid n1 n2 =
     [Uploads, Uploads,
      Creates (Some (JStr t)) (Some (JStr v)),
      Creates (Some (JStr t)) None,
      Retrieves jid, ListsEvents jid, ListsEvents jid,
      DeploysModel (Some (JStr n1)), DeploysModel (Some (JStr n2)), DeploysModel (Some (JStr fine_tuned_model)),
      Other,
      Retrieves jid, Other, Other]"

text \<open>\<open>passes m ps\<close>: whatever the remote side answers, the calls \<open>m\<close> makes pass
  on \<open>ps\<close>, in that order, up to the point where it stops, and all of \<open>ps\<close> when it
  returns.\<close>

definition passes :: "'a prog \<Rightarrow> passed list \<Rightarrow> bool" where
  "passes m ps =
     (\<forall>w. \<exists>ext. trace (snd (m w)) = trace w @ ext \<and>
        (case fst (m w) of
           Inl _ \<Rightarrow> prefix (map passed_of ext) ps
         | Inr _ \<Rightarrow> map passed_of ext = ps))"

section \<open>A sample run\<close>

text \<open>A host and a remote side on which every cell succeeds: the job has
  finished, and the two job creations return different IDs. The constructor check
  of the remote side raises when the key, the version or the endpoint it is given
  is \<open>None\<close>, so on \<open>bare_host\<close>, which sets no variable, no client is built.\<close>

definition demo_host :: host where
  "demo_host =
     \<lparr>getenv = map_of
        [(''AZURE_OPENAI_ENDPOINT'', ''https://example.openai.azure.com''),
         (''AZURE_OPENAI_API_KEY'', ''key''),
         (''API_VERSION'', ''2024-08-01-preview''),
         (''MODEL_NAME'', ''gpt-35-turbo-0613''),
         (''TOKEN'', ''tok''),
         (''SUBSCRIPTION_ID'', ''sub''),
         (''RESOURCE_GROUP_NAME'', ''rg''),
         (''AZURE_OPENAI_RESOURCE_NAME'', ''res'')],
      writable = (\<lambda>_. True)\<rparr>"

definition bare_host :: host where
  "bare_host = \<lparr>getenv = (\<lambda>_. None), writable = (\<lambda>_. True)\<rparr>"

definition demo_job :: "string \<Rightarrow> string \<Rightarrow> string list \<Rightarrow> ft_job" where
  "demo_job jid st files =
     \<lparr>j_id = jid, j_status = st,
      j_fine_tuned_model = (if st = ''succeeded'' then Some ''gpt-35-turbo-0613.ft-b044a9d3cf9c4228b5d393567f693b83'' else None),
      j_result_files = files\<rparr>"

text \<open>The remote side answers every retrieve with a job in state \<open>st\<close> and result
  files \<open>files\<close>.\<close>

definition demo_remote :: "string \<Rightarrow> string list \<Rightarrow> remote" where
  "demo_remote st files =
     \<lparr>azure_openai_init = (\<lambda>c.
        if api_key c = None then Some (OpenAIError ''Missing credentials'')
        else if api_version c = None then Some (ValueError ''Must provide the api_version argument'')
        else if azure_endpoint c = None then Some (ValueError ''Must provide the azure_endpoint argument'')
        else None),
      files_create = (\<lambda>h c f p. Inr \<lparr>f_id = ''file-'' @ fst f, f_filename = fst f\<rparr>),
      jobs_create = (\<lambda>h c kw. Inr (demo_job (if length h = 2 then ''ftjob-1'' else ''ftjob-2'') ''pending'' [])),
      jobs_retrieve = (\<lambda>h c jid. Inr (demo_job jid st files)),
      jobs_list_events = (\<lambda>h c jid lim. Inr (Page [])),
      requests_put = (\<lambda>h q. Inr \<lparr>status_code = 201, reason = ''Created'', json_body = Some (JObj [])\<rparr>),
      chat_create = (\<lambda>h c m ms. Inr \<lparr>choices = [Some ''Yes.'']\<rparr>),
      files_retrieve = (\<lambda>h c fid. Inr \<lparr>f_id = fid, f_filename = ''results.csv''\<rparr>),
      files_content = (\<lambda>h c fid. Inr ''step,train_loss'')\<rparr>"

definition demo_files :: "string \<rightharpoonup> bytes" where
  "demo_files = map_of [(''training_set.jsonl'', ''{}''), (''validation_set.jsonl'', ''{}'')]"

text \<open>The run of the cells as the README prints them, where the two placeholders
  are the strings \<^verbatim>\<open>"<fine_tuned_model>"\<close> and \<^verbatim>\<open>"<FINE_TUNED_MODEL_NAME>"\<close>.\<close>

definition demo_run :: "(pyerror + unit) \<times> world" where
  "demo_run =
     notebook demo_host (demo_remote ''succeeded'' [''file-results''])
       ''<fine_tuned_model>'' ''<FINE_TUNED_MODEL_NAME>'' (world0 demo_files)"

section \<open>Properties\<close>

lemmas prog_defs =
  seq_def ret_def py_raise_def lift_def py_print_def open_rb_def open_wb_def file_write_def
  client_files_create_def client_jobs_create_def client_jobs_retrieve_def
  client_jobs_list_events_def requests_put_call_def client_chat_create_def
  client_files_retrieve_def client_files_content_def read_name_def response_json_def
  AzureOpenAI_def

lemmas cell_defs =
  upload_cell_def create_cell_def hyperparameters_cell_def status_cell_def events_cell_def
  checkpoints_cell_def deploy_cell_def cross_region_cell_def cross_tenant_cell_def
  put_and_print_def use_cell_def analysis_cell_def notebook_def world0_def client_kwargs_def

lemmas request_defs =
  deploy_request_def cross_region_request_def cross_tenant_request_def deploy_params_def
  deploy_headers_def request_url_def deploy_data_def deploy_data_cross_region_def
  cross_region_source_def cross_tenant_url_def cross_tenant_headers_def payload_def
  fine_tuned_model_def dest_token_def source_token_def create_kwargs_def
  hyperparameters_kwargs_def json_opt_def py_str_def

lemmas demo_defs =
  demo_run_def demo_host_def bare_host_def demo_remote_def demo_job_def demo_files_def

lemma demo_client:
  "azure_endpoint (client_kwargs demo_host) = Some ''https://example.openai.azure.com''"
  "api_key (client_kwargs demo_host) = Some ''key''"
  "api_version (client_kwargs demo_host) = Some ''2024-08-01-preview''"
  "api_key (client_kwargs bare_host) = None"
  by (simp_all add: client_kwargs_def demo_host_def bare_host_def)

subsection \<open>What each cell sends\<close>

lemma trace_put_and_print:
  "trace (snd (put_and_print R q w)) = trace w @ [RequestsPut q (requests_put R (trace w) q)]"
  by (simp add: put_and_print_def prog_defs Let_def split: sum.splits option.splits)

lemma trace_cross_tenant_cell:
  "trace (snd (cross_tenant_cell R w)) =
     trace w @ [RequestsPut cross_tenant_request (requests_put R (trace w) cross_tenant_request)]"
  by (simp add: cross_tenant_cell_def prog_defs Let_def split: sum.splits option.splits)

lemma trace_create_cell:
  "trace (snd (create_cell H R c t v w)) =
     trace w @ [JobsCreate c (create_kwargs H t v) (jobs_create R (trace w) c (create_kwargs H t v))]"
  by (simp add: create_cell_def prog_defs Let_def split: sum.splits)

lemma trace_hyperparameters_cell:
  "trace (snd (hyperparameters_cell H R t w)) =
     trace w @
       (case azure_openai_init R (client_kwargs H) of
          Some e \<Rightarrow> []
        | None \<Rightarrow> [JobsCreate (client_kwargs H) (hyperparameters_kwargs H t)
                     (jobs_create R (trace w) (client_kwargs H) (hyperparameters_kwargs H t))])"
  by (simp add: hyperparameters_cell_def prog_defs Let_def split: sum.splits option.splits)

text \<open>C1. The cell that the notebook presents as listing the checkpoints of a job
  calls \<^verbatim>\<open>jobs.list_events\<close> with limit 10, exactly as the events cell above it
  does: the one call it makes is a list-events call, and what it prints is the
  page of events.\<close>

theorem checkpoints_cell_lists_events:
  "checkpoints_cell R c jid w = events_cell R c jid w \<and>
   trace (snd (checkpoints_cell R c jid w)) =
     trace w @ [JobsListEvents c jid 10 (jobs_list_events R (trace w) c jid 10)]"
  by (simp add: checkpoints_cell_def events_cell_def prog_defs Let_def split: sum.splits)

text \<open>C2 as stated fails: the cross-tenant request does not carry
  \<open>api-version=2023-05-01\<close>.\<close>

theorem cross_tenant_api_version_counterexample:
  "(''api-version'', ''2023-05-01'') \<notin> set (query_params cross_tenant_request)"
  by (simp add: query_params_def url_query_def key_value_def request_defs)

text \<open>C2, amended. Each of the three deployment cells issues one PUT to
  \<^verbatim>\<open>https://management.azure.com/subscriptions/../resourceGroups/../providers/Microsoft.CognitiveServices/accounts/../deployments/..\<close>.
  The same-region and cross-region requests pass \<open>api-version=2023-05-01\<close> as
  \<^verbatim>\<open>params\<close>; the cross-tenant request writes \<open>api-version=2024-10-01\<close> in its URL
  and passes no \<^verbatim>\<open>params\<close>.\<close>

theorem deployment_requests_api_version:
  "trace (snd (deploy_cell H R n1 w)) =
     trace w @ [RequestsPut (deploy_request H n1) (requests_put R (trace w) (deploy_request H n1))] \<and>
   trace (snd (cross_region_cell H R n2 w)) =
     trace w @ [RequestsPut (cross_region_request H n2) (requests_put R (trace w) (cross_region_request H n2))] \<and>
   trace (snd (cross_tenant_cell R w)) =
     trace w @ [RequestsPut cross_tenant_request (requests_put R (trace w) cross_tenant_request)] \<and>
   meth (deploy_request H n1) = ''PUT'' \<and>
   meth (cross_region_request H n2) = ''PUT'' \<and>
   meth cross_tenant_request = ''PUT'' \<and>
   url (deploy_request H n1) =
     request_url (py_str (getenv H ''SUBSCRIPTION_ID'')) (py_str (getenv H ''RESOURCE_GROUP_NAME''))
       (py_str (getenv H ''AZURE_OPENAI_RESOURCE_NAME'')) ''gpt-35-turbo-ft'' \<and>
   url (cross_region_request H n2) =
     request_url ''<DESTINATION_SUBSCRIPTION_ID>'' ''<DESTINATION_RESOURCE_GROUP_NAME>''
       ''<DESTINATION_AZURE_OPENAI_RESOURCE_NAME>'' ''gpt-35-turbo-ft'' \<and>
   url cross_tenant_request =
     request_url ''DESTINATION-SUBSCRIPTION-ID'' ''DESTINATION-RESOURCE-GROUP''
       ''DESTINATION-AZURE-OPENAI-RESOURCE-NAME'' ''DESTINATION-MODEL-DEPLOYMENT-NAME''
       @ ''?api-version=2024-10-01'' \<and>
   params (deploy_request H n1) = [(''api-version'', ''2023-05-01'')] \<and>
   (''api-version'', ''2023-05-01'') \<in> set (query_params (deploy_request H n1)) \<and>
   query_params (cross_region_request H n2) = [(''api-version'', ''2023-05-01'')] \<and>
   query_params cross_tenant_request = [(''api-version'', ''2024-10-01'')]"
proof -
  have "query_params (cross_region_request H n2) = [(''api-version'', ''2023-05-01'')]"
    by (simp add: query_params_def url_query_def key_value_def request_defs)
  moreover have "query_params cross_tenant_request = [(''api-version'', ''2024-10-01'')]"
    by (simp add: query_params_def url_query_def key_value_def request_defs)
  moreover have "url cross_tenant_request =
     request_url ''DESTINATION-SUBSCRIPTION-ID'' ''DESTINATION-RESOURCE-GROUP''
       ''DESTINATION-AZURE-OPENAI-RESOURCE-NAME'' ''DESTINATION-MODEL-DEPLOYMENT-NAME''
       @ ''?api-version=2024-10-01''"
    by (simp add: request_defs)
  moreover have "url (deploy_request H n1) =
     request_url (py_str (getenv H ''SUBSCRIPTION_ID'')) (py_str (getenv H ''RESOURCE_GROUP_NAME''))
       (py_str (getenv H ''AZURE_OPENAI_RESOURCE_NAME'')) ''gpt-35-turbo-ft''"
    by (simp add: deploy_request_def)
  moreover have "url (cross_region_request H n2) =
     request_url ''<DESTINATION_SUBSCRIPTION_ID>'' ''<DESTINATION_RESOURCE_GROUP_NAME>''
       ''<DESTINATION_AZURE_OPENAI_RESOURCE_NAME>'' ''gpt-35-turbo-ft''"
    by (simp add: cross_region_request_def)
  moreover have "params (deploy_request H n1) = [(''api-version'', ''2023-05-01'')]"
    by (simp add: deploy_request_def deploy_params_def)
  moreover have "(''api-version'', ''2023-05-01'') \<in> set (query_params (deploy_request H n1))"
    by (simp add: query_params_def deploy_request_def deploy_params_def)
  moreover have "meth (deploy_request H n1) = ''PUT''" "meth (cross_region_request H n2) = ''PUT''"
    "meth cross_tenant_request = ''PUT''"
    by (simp_all add: deploy_request_def cross_region_request_def cross_tenant_request_def)
  ultimately show ?thesis
    by (simp only: deploy_cell_def cross_region_cell_def trace_put_and_print trace_cross_tenant_cell simp_thms)
qed

subsection \<open>Deployment bodies and headers\<close>

lemma deploy_body:
  "keys_at [] (deploy_request H n1) = Some [''sku'', ''properties'']"
  "body_at [''sku''] (deploy_request H n1) = Some (JObj [(''name'', JStr ''standard''), (''capacity'', JInt 1)])"
  "keys_at [''properties''] (deploy_request H n1) = Some [''model'']"
  "keys_at [''properties'', ''model''] (deploy_request H n1) = Some [''format'', ''name'', ''version'']"
  "body_at [''properties'', ''model'', ''format''] (deploy_request H n1) = Some (JStr ''OpenAI'')"
  "body_at [''properties'', ''model'', ''name''] (deploy_request H n1) = Some (JStr n1)"
  "body_at [''properties'', ''model'', ''version''] (deploy_request H n1) = Some (JStr ''1'')"
  by (simp_all add: body_at_def keys_at_def deploy_request_def deploy_data_def)

lemma cross_region_body:
  "keys_at [] (cross_region_request H n2) = Some [''sku'', ''properties'']"
  "body_at [''sku''] (cross_region_request H n2) = Some (JObj [(''name'', JStr ''standard''), (''capacity'', JInt 1)])"
  "keys_at [''properties''] (cross_region_request H n2) = Some [''model'']"
  "keys_at [''properties'', ''model''] (cross_region_request H n2) = Some [''format'', ''name'', ''version'', ''source'']"
  "body_at [''properties'', ''model'', ''format''] (cross_region_request H n2) = Some (JStr ''OpenAI'')"
  "body_at [''properties'', ''model'', ''name''] (cross_region_request H n2) = Some (JStr n2)"
  "body_at [''properties'', ''model'', ''version''] (cross_region_request H n2) = Some (JStr ''1'')"
  "body_at [''properties'', ''model'', ''source''] (cross_region_request H n2) =
     Some (JStr (arm_account_id ''<SOURCE_SUBSCRIPTION_ID>'' ''<SOURCE_RESOURCE_GROUP>'' ''<SOURCE_RESOURCE>''))"
  by (simp_all add: body_at_def keys_at_def cross_region_request_def deploy_data_cross_region_def
      cross_region_source_def arm_account_id_def)

lemma cross_tenant_body:
  "keys_at [] cross_tenant_request = Some [''sku'', ''properties'']"
  "body_at [''sku''] cross_tenant_request = Some (JObj [(''name'', JStr ''standard''), (''capacity'', JInt 1)])"
  "keys_at [''properties''] cross_tenant_request = Some [''model'']"
  "keys_at [''properties'', ''model''] cross_tenant_request = Some [''format'', ''name'', ''version'', ''sourceAccount'']"
  "body_at [''properties'', ''model'', ''format''] cross_tenant_request = Some (JStr ''OpenAI'')"
  "body_at [''properties'', ''model'', ''name''] cross_tenant_request = Some (JStr fine_tuned_model)"
  "body_at [''properties'', ''model'', ''version''] cross_tenant_request = Some (JStr ''1'')"
  "body_at [''properties'', ''model'', ''sourceAccount''] cross_tenant_request =
     Some (JStr (arm_account_id ''SOURCE-SUBSCRIPTION-ID'' ''SOURCE-RESOURCE-GROUP'' ''SOURCE-AZURE-OPENAI-RESOURCE-NAME''))"
  by (simp_all add: body_at_def keys_at_def cross_tenant_request_def payload_def arm_account_id_def)

text \<open>C4. The three deployment bodies are objects with exactly the keys \<open>sku\<close> and
  \<open>properties\<close>; \<open>sku\<close> is \<open>{name: "standard", capacity: 1}\<close>; \<open>properties\<close> holds
  only \<open>model\<close>, whose \<open>format\<close> is \<open>"OpenAI"\<close>, whose \<open>version\<close> is \<open>"1"\<close> and whose
  \<open>name\<close> is the model name. The same-region model has no further key. The
  cross-region model has one more key, \<open>source\<close>, and the cross-tenant model one
  more key, \<open>sourceAccount\<close>, each set to the ARM resource ID of the source account.\<close>

theorem deployment_bodies:
  "map (keys_at []) [deploy_request H n1, cross_region_request H n2, cross_tenant_request]
     = replicate 3 (Some [''sku'', ''properties'']) \<and>
   map (body_at [''sku'']) [deploy_request H n1, cross_region_request H n2, cross_tenant_request]
     = replicate 3 (Some (JObj [(''name'', JStr ''standard''), (''capacity'', JInt 1)])) \<and>
   map (keys_at [''properties'']) [deploy_request H n1, cross_region_request H n2, cross_tenant_request]
     = replicate 3 (Some [''model'']) \<and>
   map (keys_at [''properties'', ''model''])
       [deploy_request H n1, cross_region_request H n2, cross_tenant_request]
     = [Some [''format'', ''name'', ''version''],
        Some [''format'', ''name'', ''version'', ''source''],
        Some [''format'', ''name'', ''version'', ''sourceAccount'']] \<and>
   map (body_at [''properties'', ''model'', ''format''])
       [deploy_request H n1, cross_region_request H n2, cross_tenant_request]
     = replicate 3 (Some (JStr ''OpenAI'')) \<and>
   map (body_at [''properties'', ''model'', ''name''])
       [deploy_request H n1, cross_region_request H n2, cross_tenant_request]
     = [Some (JStr n1), Some (JStr n2), Some (JStr fine_tuned_model)] \<and>
   map (body_at [''properties'', ''model'', ''version''])
       [deploy_request H n1, cross_region_request H n2, cross_tenant_request]
     = replicate 3 (Some (JStr ''1'')) \<and>
   body_at [''properties'', ''model'', ''source''] (cross_region_request H n2)
     = Some (JStr (arm_account_id ''<SOURCE_SUBSCRIPTION_ID>'' ''<SOURCE_RESOURCE_GROUP>'' ''<SOURCE_RESOURCE>'')) \<and>
   body_at [''properties'', ''model'', ''sourceAccount''] cross_tenant_request
     = Some (JStr (arm_account_id ''SOURCE-SUBSCRIPTION-ID'' ''SOURCE-RESOURCE-GROUP'' ''SOURCE-AZURE-OPENAI-RESOURCE-NAME''))"
  by (simp only: list.map deploy_body cross_region_body cross_tenant_body
      numeral_3_eq_3 replicate.simps simp_thms)

text \<open>C10. The cross-tenant request sends \<open>Bearer\<close> plus the destination token as
  \<open>Authorization\<close> and \<open>Bearer\<close> plus the source token as
  \<open>x-ms-authorization-auxiliary\<close>; the two tokens differ; and the headers of the
  other two deployment requests are \<open>Authorization\<close> and \<open>Content-Type\<close> only.\<close>

theorem cross_tenant_tokens:
  "map_of (headers cross_tenant_request) ''Authorization'' = Some (''Bearer '' @ dest_token) \<and>
   map_of (headers cross_tenant_request) ''x-ms-authorization-auxiliary'' = Some (''Bearer '' @ source_token) \<and>
   dest_token \<noteq> source_token \<and>
   map fst (headers cross_tenant_request) = [''Authorization'', ''x-ms-authorization-auxiliary'', ''Content-Type''] \<and>
   map fst (headers (deploy_request H n1)) = [''Authorization'', ''Content-Type''] \<and>
   map fst (headers (cross_region_request H n2)) = [''Authorization'', ''Content-Type''] \<and>
   map_of (headers (deploy_request H n1)) ''x-ms-authorization-auxiliary'' = None \<and>
   map_of (headers (cross_region_request H n2)) ''x-ms-authorization-auxiliary'' = None"
  by (simp add: cross_tenant_request_def cross_tenant_headers_def dest_token_def source_token_def
      deploy_request_def cross_region_request_def deploy_headers_def)

subsection \<open>Job creation\<close>

text \<open>C5 as stated fails: the first job creation passes no \<open>hyperparameters\<close>, and
  the second passes neither \<open>validation_file\<close> nor \<open>seed\<close>.\<close>

theorem job_creation_fields_counterexample:
  "''hyperparameters'' \<notin> set (map fst (create_kwargs demo_host ''file-1'' ''file-2'')) \<and>
   ''validation_file'' \<notin> set (map fst (hyperparameters_kwargs demo_host ''file-1'')) \<and>
   ''seed'' \<notin> set (map fst (hyperparameters_kwargs demo_host ''file-1''))"
  by (simp add: create_kwargs_def hyperparameters_kwargs_def)

text \<open>C5, amended. The notebook creates a job twice. The first call passes
  \<open>training_file\<close>, \<open>validation_file\<close>, \<open>model\<close> and \<open>seed\<close> (105) and nothing else;
  the second passes \<open>training_file\<close>, \<open>model\<close> and \<open>hyperparameters\<close> and nothing
  else, where the hyperparameters are \<open>{n_epochs: 2}\<close>. Both pass the training
  file ID they are given, and as model the value of \<open>MODEL_NAME\<close>. The cell of
  the second call builds a new client first: when the constructor raises, the cell
  makes no call at all.\<close>

theorem job_creation_fields:
  "trace (snd (create_cell H R c t v w)) =
     trace w @ [JobsCreate c (create_kwargs H t v) (jobs_create R (trace w) c (create_kwargs H t v))] \<and>
   trace (snd (hyperparameters_cell H R t w)) =
     trace w @
       (case azure_openai_init R (client_kwargs H) of
          Some e \<Rightarrow> []
        | None \<Rightarrow> [JobsCreate (client_kwargs H) (hyperparameters_kwargs H t)
                     (jobs_create R (trace w) (client_kwargs H) (hyperparameters_kwargs H t))]) \<and>
   map fst (create_kwargs H t v) = [''training_file'', ''validation_file'', ''model'', ''seed''] \<and>
   map fst (hyperparameters_kwargs H t) = [''training_file'', ''model'', ''hyperparameters''] \<and>
   map_of (create_kwargs H t v) ''training_file'' = Some (JStr t) \<and>
   map_of (create_kwargs H t v) ''validation_file'' = Some (JStr v) \<and>
   map_of (create_kwargs H t v) ''model'' = Some (json_opt (getenv H ''MODEL_NAME'')) \<and>
   map_of (create_kwargs H t v) ''seed'' = Some (JInt 105) \<and>
   map_of (hyperparameters_kwargs H t) ''training_file'' = Some (JStr t) \<and>
   map_of (hyperparameters_kwargs H t) ''model'' = Some (json_opt (getenv H ''MODEL_NAME'')) \<and>
   map_of (hyperparameters_kwargs H t) ''hyperparameters'' = Some (JObj [(''n_epochs'', JInt 2)])"
  by (simp add: trace_create_cell trace_hyperparameters_cell create_kwargs_def hyperparameters_kwargs_def)

theorem job_creation_fields_witness:
  "trace (snd (hyperparameters_cell demo_host (demo_remote ''running'' []) ''file-1'' (world0 demo_files))) =
     [JobsCreate (client_kwargs demo_host) (hyperparameters_kwargs demo_host ''file-1'')
        (Inr (demo_job ''ftjob-2'' ''pending'' []))] \<and>
   trace (snd (hyperparameters_cell bare_host (demo_remote ''running'' []) ''file-1'' (world0 demo_files))) = [] \<and>
   fst (hyperparameters_cell bare_host (demo_remote ''running'' []) ''file-1'' (world0 demo_files)) =
     Inl (OpenAIError ''Missing credentials'')"
proof -
  have "fst (hyperparameters_cell bare_host (demo_remote ''running'' []) ''file-1'' (world0 demo_files)) =
     Inl (OpenAIError ''Missing credentials'')"
    by (simp add: hyperparameters_cell_def prog_defs demo_remote_def demo_client)
  with job_creation_fields
      [where H = demo_host and R = "demo_remote ''running'' []" and t = "''file-1''"
         and w = "world0 demo_files"]
    job_creation_fields
      [where H = bare_host and R = "demo_remote ''running'' []" and t = "''file-1''"
         and w = "world0 demo_files"]
  show ?thesis
    by (simp add: demo_remote_def demo_client world0_def)
qed

text \<open>C8. When the job creation returns a job, the cell prints three lines: the
  label \<open>Job ID:\<close> with the job's ID, the label \<open>Status:\<close> with the job's ID again
  (not its status), and the dump of the job.\<close>

theorem create_cell_prints_id_as_status:
  assumes "jobs_create R (trace w) c (create_kwargs H t v) = Inr j"
  shows "stdout (snd (create_cell H R c t v w)) =
           stdout w @ [[PStr ''Job ID:'', PStr (j_id j)], [PStr ''Status:'', PStr (j_id j)], [PJobDump j]]"
  using assms by (simp add: create_cell_def prog_defs Let_def)

theorem create_cell_prints_id_as_status_witness:
  "stdout (snd (create_cell demo_host (demo_remote ''running'' []) (client_kwargs demo_host) ''file-1'' ''file-2''
      (world0 demo_files))) =
     [[PStr ''Job ID:'', PStr ''ftjob-2''], [PStr ''Status:'', PStr ''ftjob-2''],
      [PJobDump \<lparr>j_id = ''ftjob-2'', j_status = ''pending'', j_fine_tuned_model = None, j_result_files = []\<rparr>]]"
  using create_cell_prints_id_as_status [of "demo_remote ''running'' []" "world0 demo_files"
      "client_kwargs demo_host" demo_host "''file-1''" "''file-2''" "demo_job ''ftjob-2'' ''pending'' []"]
  by (simp add: demo_remote_def demo_job_def world0_def)

subsection \<open>The sample run\<close>

lemma demo_run_result: "fst demo_run = Inr ()"
  by (simp add: demo_defs cell_defs prog_defs index0_def Let_def
      cong: sum.case_cong_weak prod.case_cong_weak if_weak_cong)

lemma writable_demo_host: "writable demo_host n"
  by (simp add: demo_host_def)

lemma demo_run_trace:
  "trace (snd demo_run) =
     [FilesCreate (client_kwargs demo_host) (''training_set.jsonl'', ''{}'') ''fine-tune''
        (Inr \<lparr>f_id = ''file-training_set.jsonl'', f_filename = ''training_set.jsonl''\<rparr>),
      FilesCreate (client_kwargs demo_host) (''validation_set.jsonl'', ''{}'') ''fine-tune''
        (Inr \<lparr>f_id = ''file-validation_set.jsonl'', f_filename = ''validation_set.jsonl''\<rparr>),
      JobsCreate (client_kwargs demo_host)
        (create_kwargs demo_host ''file-training_set.jsonl'' ''file-validation_set.jsonl'')
        (Inr (demo_job ''ftjob-1'' ''pending'' [])),
      JobsCreate (client_kwargs demo_host) (hyperparameters_kwargs demo_host ''file-training_set.jsonl'')
        (Inr (demo_job ''ftjob-2'' ''pending'' [])),
      JobsRetrieve (client_kwargs demo_host) ''ftjob-1'' (Inr (demo_job ''ftjob-1'' ''succeeded'' [''file-results''])),
      JobsListEvents (client_kwargs demo_host) ''ftjob-1'' 10 (Inr (Page [])),
      JobsListEvents (client_kwargs demo_host) ''ftjob-1'' 10 (Inr (Page [])),
      RequestsPut (deploy_request demo_host ''<fine_tuned_model>'')
        (Inr \<lparr>status_code = 201, reason = ''Created'', json_body = Some (JObj [])\<rparr>),
      RequestsPut (cross_region_request demo_host ''<FINE_TUNED_MODEL_NAME>'')
        (Inr \<lparr>status_code = 201, reason = ''Created'', json_body = Some (JObj [])\<rparr>),
      RequestsPut cross_tenant_request
        (Inr \<lparr>status_code = 201, reason = ''Created'', json_body = Some (JObj [])\<rparr>),
      ChatCreate (client_kwargs demo_host) ''gpt-35-turbo-ft'' messages (Inr \<lparr>choices = [Some ''Yes.'']\<rparr>),
      JobsRetrieve (client_kwargs demo_host) ''ftjob-1'' (Inr (demo_job ''ftjob-1'' ''succeeded'' [''file-results''])),
      FilesRetrieve (client_kwargs demo_host) ''file-results'' (Inr \<lparr>f_id = ''file-results'', f_filename = ''results.csv''\<rparr>),
      FilesContent (client_kwargs demo_host) ''file-results'' (Inr ''step,train_loss'')]"
  by (simp add: demo_run_def demo_remote_def demo_files_def demo_job_def
      upload_cell_def create_cell_def hyperparameters_cell_def status_cell_def events_cell_def
      checkpoints_cell_def deploy_cell_def cross_region_cell_def cross_tenant_cell_def
      put_and_print_def use_cell_def analysis_cell_def notebook_def world0_def
      prog_defs index0_def Let_def writable_demo_host demo_client
      cong: sum.case_cong_weak prod.case_cong_weak if_weak_cong)

subsection \<open>One request per operation\<close>

lemma single_shot_local:
  "single_shot (ret x) []" "single_shot (py_raise e) []" "single_shot (lift r) []"
  "single_shot (py_print a) []" "single_shot (open_rb n) []" "single_shot (open_wb H n) []"
  "single_shot (file_write n b) []" "single_shot (read_name k v) []" "single_shot (response_json q) []"
  "single_shot (AzureOpenAI H R) []"
  "single_shot (if cond then seq (lift r') (\<lambda>x. ret (Some x)) else ret y) []"
  by (auto simp: single_shot_def prog_defs split: sum.splits option.splits)

lemma single_shot_remote:
  "single_shot (client_files_create R c f p) [OpFilesCreate]"
  "single_shot (client_jobs_create R c kw) [OpJobsCreate]"
  "single_shot (client_jobs_retrieve R c j) [OpJobsRetrieve]"
  "single_shot (client_jobs_list_events R c j n) [OpJobsListEvents]"
  "single_shot (requests_put_call R q) [OpRequestsPut]"
  "single_shot (client_chat_create R c m ms) [OpChatCreate]"
  "single_shot (client_files_retrieve R c i) [OpFilesRetrieve]"
  "single_shot (client_files_content R c i) [OpFilesContent]"
  by (auto simp: single_shot_def prog_defs Let_def split: sum.splits)

lemma butlast_all_ok:
  assumes "list_all P xs" and "list_all P (butlast ys)"
  shows "list_all P (butlast (xs @ ys))"
proof (cases "ys = []")
  case True
  with assms(1) show ?thesis by (auto simp: list_all_iff dest: in_set_butlastD)
next
  case False
  with assms show ?thesis by (simp add: butlast_append)
qed

lemma single_shot_seq:
  assumes m: "single_shot m ops1" and f: "\<And>x. single_shot (f x) ops2"
  shows "single_shot (seq m f) (ops1 @ ops2)"
  unfolding single_shot_def
proof
  fix w
  let ?ok = "list_all (\<lambda>c. \<not> failed c)"
  from m obtain e1 where e1: "trace (snd (m w)) = trace w @ e1"
    and c1: "case fst (m w) of
               Inl _ \<Rightarrow> prefix (map op_of e1) ops1 \<and> ?ok (butlast e1)
             | Inr _ \<Rightarrow> map op_of e1 = ops1 \<and> ?ok e1"
    unfolding single_shot_def by blast
  obtain r w' where mw: "m w = (r, w')" by (cases "m w")
  show "\<exists>ext. trace (snd (seq m f w)) = trace w @ ext \<and>
          (case fst (seq m f w) of
             Inl _ \<Rightarrow> prefix (map op_of ext) (ops1 @ ops2) \<and> ?ok (butlast ext)
           | Inr _ \<Rightarrow> map op_of ext = ops1 @ ops2 \<and> ?ok ext)"
  proof (cases r)
    case (Inl e)
    with mw e1 c1 show ?thesis
      by (auto simp: seq_def intro!: exI[of _ e1])
  next
    case (Inr x)
    from f[of x] obtain e2 where e2: "trace (snd (f x w')) = trace w' @ e2"
      and c2: "case fst (f x w') of
                 Inl _ \<Rightarrow> prefix (map op_of e2) ops2 \<and> ?ok (butlast e2)
               | Inr _ \<Rightarrow> map op_of e2 = ops2 \<and> ?ok e2"
      unfolding single_shot_def by blast
    from mw Inr e1 c1 e2 c2 butlast_all_ok[of "\<lambda>c. \<not> failed c" e1 e2] show ?thesis
      by (auto simp: seq_def intro!: exI[of _ "e1 @ e2"] split: sum.splits)
  qed
qed

lemma single_shot_then:
  "single_shot m [] \<Longrightarrow> (\<And>x. single_shot (f x) ops) \<Longrightarrow> single_shot (seq m f) ops"
  using single_shot_seq[of m "[]" f ops] by simp

lemma single_shot_call:
  "single_shot m [a] \<Longrightarrow> (\<And>x. single_shot (f x) ops) \<Longrightarrow> single_shot (seq m f) (a # ops)"
  using single_shot_seq[of m "[a]" f ops] by simp

lemma single_shot_prod:
  "(\<And>a b. single_shot (f a b) ops) \<Longrightarrow> single_shot (case_prod f x) ops"
  by (cases x) simp

lemma single_shot_upload: "single_shot (upload_cell H R) [OpFilesCreate, OpFilesCreate]"
  unfolding upload_cell_def Let_def
  by ((rule single_shot_call, rule single_shot_remote) | (rule single_shot_then, rule single_shot_local)
      | rule single_shot_local | rule single_shot_remote)+

lemma single_shot_create: "single_shot (create_cell H R c t v) [OpJobsCreate]"
  unfolding create_cell_def Let_def
  by ((rule single_shot_call, rule single_shot_remote) | (rule single_shot_then, rule single_shot_local)
      | rule single_shot_local | rule single_shot_remote)+

lemma single_shot_hyperparameters: "single_shot (hyperparameters_cell H R t) [OpJobsCreate]"
  unfolding hyperparameters_cell_def Let_def
  by ((rule single_shot_call, rule single_shot_remote) | (rule single_shot_then, rule single_shot_local)
      | rule single_shot_local | rule single_shot_remote)+

lemma single_shot_status: "single_shot (status_cell R c j) [OpJobsRetrieve]"
  unfolding status_cell_def
  by ((rule single_shot_call, rule single_shot_remote) | (rule single_shot_then, rule single_shot_local)
      | rule single_shot_local | rule single_shot_remote)+

lemma single_shot_events: "single_shot (events_cell R c j) [OpJobsListEvents]"
  unfolding events_cell_def
  by ((rule single_shot_call, rule single_shot_remote) | (rule single_shot_then, rule single_shot_local)
      | rule single_shot_local | rule single_shot_remote)+

lemma single_shot_checkpoints: "single_shot (checkpoints_cell R c j) [OpJobsListEvents]"
  unfolding checkpoints_cell_def
  by ((rule single_shot_call, rule single_shot_remote) | (rule single_shot_then, rule single_shot_local)
      | rule single_shot_local | rule single_shot_remote)+

lemma single_shot_put: "single_shot (put_and_print R q) [OpRequestsPut]"
  unfolding put_and_print_def
  by ((rule single_shot_call, rule single_shot_remote) | (rule single_shot_then, rule single_shot_local)
      | rule single_shot_local | rule single_shot_remote)+

lemma single_shot_cross_tenant: "single_shot (cross_tenant_cell R) [OpRequestsPut]"
  unfolding cross_tenant_cell_def
  by ((rule single_shot_call, rule single_shot_remote) | (rule single_shot_then, rule single_shot_local)
      | rule single_shot_local | rule single_shot_remote)+

lemma single_shot_use: "single_shot (use_cell H R) [OpChatCreate]"
  unfolding use_cell_def Let_def
  by ((rule single_shot_call, rule single_shot_remote) | (rule single_shot_then, rule single_shot_local)
      | rule single_shot_local | rule single_shot_remote)+

lemma single_shot_analysis:
  "single_shot (analysis_cell H R c j v) [OpJobsRetrieve, OpFilesRetrieve, OpFilesContent]"
  unfolding analysis_cell_def
  by ((rule single_shot_call, rule single_shot_remote) | (rule single_shot_then, rule single_shot_local)
      | rule single_shot_local | rule single_shot_remote)+

lemma single_shot_notebook: "single_shot (notebook H R n1 n2) notebook_ops"
proof -
  have "single_shot (notebook H R n1 n2)
     ([OpFilesCreate, OpFilesCreate] @ [OpJobsCreate] @ [OpJobsCreate] @ [OpJobsRetrieve] @
      [OpJobsListEvents] @ [OpJobsListEvents] @ [OpRequestsPut] @ [OpRequestsPut] @
      [OpRequestsPut] @ [OpChatCreate] @ [OpJobsRetrieve, OpFilesRetrieve, OpFilesContent])"
    unfolding notebook_def deploy_cell_def cross_region_cell_def
    by (intro single_shot_seq single_shot_prod single_shot_upload single_shot_create
        single_shot_hyperparameters single_shot_status single_shot_events single_shot_checkpoints
        single_shot_put single_shot_cross_tenant single_shot_use single_shot_analysis)
  then show ?thesis by (simp add: notebook_ops_def)
qed

text \<open>C6. Run the notebook from an empty trace, against any remote side. The
  calls made are, in order, calls of the notebook's operations: the first call
  belongs to the first call statement, the second to the second, and so on, so no operation is called twice and none
  is skipped before the run stops. Every call except possibly the last one
  succeeded: after a call has failed nothing more is sent, neither a second
  attempt nor any other request. When the run ends without an exception, every
  operation was called exactly once.\<close>

theorem notebook_single_shot:
  "prefix (map op_of (trace (snd (notebook H R n1 n2 (world0 files))))) notebook_ops \<and>
   list_all (\<lambda>c. \<not> failed c) (butlast (trace (snd (notebook H R n1 n2 (world0 files))))) \<and>
   (fst (notebook H R n1 n2 (world0 files)) = Inr () \<longrightarrow>
      map op_of (trace (snd (notebook H R n1 n2 (world0 files)))) = notebook_ops)"
  using single_shot_notebook[of H R n1 n2, unfolded single_shot_def, rule_format, of "world0 files"]
  by (auto simp: world0_def list_all_iff split: sum.splits dest: in_set_butlastD)

theorem notebook_single_shot_witness:
  "fst demo_run = Inr () \<and> map op_of (trace (snd demo_run)) = notebook_ops \<and>
   length (trace (snd demo_run)) = 14"
  using notebook_single_shot
      [where H = demo_host and R = "demo_remote ''succeeded'' [''file-results'']"
         and ?n1.0 = "''<fine_tuned_model>''" and ?n2.0 = "''<FINE_TUNED_MODEL_NAME>''"
         and files = demo_files]
    demo_run_result demo_run_trace
  by (simp add: demo_run_def)

subsection \<open>The analysis cell\<close>

text \<open>C7. Suppose the job retrieved has status \<open>succeeded\<close> and its first result
  file is \<open>fid\<close>, the service answers the metadata request for \<open>fid\<close> with \<open>meta\<close>
  and the content request for \<open>fid\<close> with \<open>content\<close>, and the file named by \<open>meta\<close>
  can be created. Then the cell makes exactly these three calls, prints one line,
  and leaves \<open>content\<close>, byte for byte, in the local file named as the service
  reported.\<close>

theorem analysis_cell_downloads_first_result_file:
  assumes "jobs_retrieve R (trace w) c job_id = Inr job"
    and "j_status job = ''succeeded''"
    and "j_result_files job = fid # others"
    and "files_retrieve R (trace w @ [JobsRetrieve c job_id (Inr job)]) c fid = Inr meta"
    and "writable H (f_filename meta)"
    and "files_content R (trace w @ [JobsRetrieve c job_id (Inr job), FilesRetrieve c fid (Inr meta)]) c fid
           = Inr content"
  shows "analysis_cell H R c job_id bound w =
           (Inr (),
            w\<lparr>trace := trace w @ [JobsRetrieve c job_id (Inr job), FilesRetrieve c fid (Inr meta),
                                  FilesContent c fid (Inr content)],
              stdout := stdout w @ [[PStr (''Downloading result file: '' @ fid)]],
              fs := (fs w)(f_filename meta \<mapsto> content)\<rparr>)"
  using assms by (simp add: analysis_cell_def prog_defs index0_def Let_def)

theorem analysis_cell_downloads_first_result_file_witness:
  "analysis_cell demo_host (demo_remote ''succeeded'' [''file-results'', ''file-other''])
       (client_kwargs demo_host) ''ftjob-1'' None (world0 demo_files) =
     (Inr (),
      \<lparr>trace = [JobsRetrieve (client_kwargs demo_host) ''ftjob-1''
                  (Inr (demo_job ''ftjob-1'' ''succeeded'' [''file-results'', ''file-other''])),
                FilesRetrieve (client_kwargs demo_host) ''file-results''
                  (Inr \<lparr>f_id = ''file-results'', f_filename = ''results.csv''\<rparr>),
                FilesContent (client_kwargs demo_host) ''file-results'' (Inr ''step,train_loss'')],
       stdout = [[PStr ''Downloading result file: file-results'']],
       fs = demo_files(''results.csv'' \<mapsto> ''step,train_loss'')\<rparr>)"
  using analysis_cell_downloads_first_result_file
      [where R = "demo_remote ''succeeded'' [''file-results'', ''file-other'']"
         and w = "world0 demo_files" and c = "client_kwargs demo_host" and job_id = "''ftjob-1''"
         and job = "demo_job ''ftjob-1'' ''succeeded'' [''file-results'', ''file-other'']"
         and fid = "''file-results''" and others = "[''file-other'']"
         and meta = "\<lparr>f_id = ''file-results'', f_filename = ''results.csv''\<rparr>"
         and H = demo_host and content = "''step,train_loss''" and bound = None]
  by (simp add: demo_remote_def demo_job_def demo_host_def world0_def)

text \<open>C9. Suppose the retrieve call returns a job. If its status is not
  \<open>succeeded\<close> and \<open>result_file_id\<close> was not bound before, the cell ends with
  \<open>NameError\<close> for \<open>result_file_id\<close>: the \<open>if\<close> does not guard the statements after
  it, and the read of the name in \<^verbatim>\<open>client.files.retrieve(result_file_id)\<close> fails, so
  nothing is downloaded and no file is written. If the status is \<open>succeeded\<close> and
  \<open>result_files\<close> is empty, the cell ends with \<open>IndexError\<close>. In both cases the
  retrieve call is the only call made.\<close>

theorem analysis_cell_failures:
  assumes "jobs_retrieve R (trace w) c job_id = Inr job"
  shows "(j_status job \<noteq> ''succeeded'' \<longrightarrow>
            analysis_cell H R c job_id None w =
              (Inl (NameError ''result_file_id''), w\<lparr>trace := trace w @ [JobsRetrieve c job_id (Inr job)]\<rparr>)) \<and>
         (j_status job = ''succeeded'' \<and> j_result_files job = [] \<longrightarrow>
            analysis_cell H R c job_id bound w =
              (Inl IndexError, w\<lparr>trace := trace w @ [JobsRetrieve c job_id (Inr job)]\<rparr>))"
  using assms by (simp add: analysis_cell_def prog_defs index0_def Let_def)

theorem analysis_cell_failures_witness:
  "analysis_cell demo_host (demo_remote ''running'' []) (client_kwargs demo_host) ''ftjob-1'' None (world0 demo_files) =
     (Inl (NameError ''result_file_id''),
      \<lparr>trace = [JobsRetrieve (client_kwargs demo_host) ''ftjob-1'' (Inr (demo_job ''ftjob-1'' ''running'' []))],
       stdout = [], fs = demo_files\<rparr>) \<and>
   analysis_cell demo_host (demo_remote ''succeeded'' []) (client_kwargs demo_host) ''ftjob-1'' None (world0 demo_files) =
     (Inl IndexError,
      \<lparr>trace = [JobsRetrieve (client_kwargs demo_host) ''ftjob-1'' (Inr (demo_job ''ftjob-1'' ''succeeded'' []))],
       stdout = [], fs = demo_files\<rparr>)"
  using analysis_cell_failures
      [where R = "demo_remote ''running'' []" and w = "world0 demo_files" and c = "client_kwargs demo_host"
         and job_id = "''ftjob-1''" and job = "demo_job ''ftjob-1'' ''running'' []"
         and H = demo_host and bound = None]
    analysis_cell_failures
      [where R = "demo_remote ''succeeded'' []" and w = "world0 demo_files" and c = "client_kwargs demo_host"
         and job_id = "''ftjob-1''" and job = "demo_job ''ftjob-1'' ''succeeded'' []"
         and H = demo_host and bound = None]
  by (simp add: demo_remote_def demo_job_def world0_def)

subsection \<open>Identifiers passed from call to call\<close>

lemma passes_local:
  "passes (ret x) []" "passes (py_raise e) []" "passes (lift r) []"
  "passes (py_print a) []" "passes (open_rb n) []" "passes (open_wb H n) []"
  "passes (file_write n b) []" "passes (read_name k v) []" "passes (response_json q) []"
  "passes (AzureOpenAI H R) []"
  "passes (if cond then seq (lift r') (\<lambda>x. ret (Some x)) else ret y) []"
  by (auto simp: passes_def prog_defs split: sum.splits option.splits)

lemma passes_remote:
  "passes (client_files_create R c f p) [Uploads]"
  "passes (client_jobs_create R c kw) [Creates (map_of kw ''training_file'') (map_of kw ''validation_file'')]"
  "passes (client_jobs_retrieve R c j) [Retrieves j]"
  "passes (client_jobs_list_events R c j n) [ListsEvents j]"
  "passes (requests_put_call R q) [DeploysModel (model_name q)]"
  "passes (client_chat_create R c m ms) [Other]"
  "passes (client_files_retrieve R c i) [Other]"
  "passes (client_files_content R c i) [Other]"
  by (auto simp: passes_def prog_defs Let_def split: sum.splits)

lemma passes_seq:
  assumes m: "passes m ps1" and f: "\<And>x. passes (f x) ps2"
  shows "passes (seq m f) (ps1 @ ps2)"
  unfolding passes_def
proof
  fix w
  from m obtain e1 where e1: "trace (snd (m w)) = trace w @ e1"
    and c1: "case fst (m w) of Inl _ \<Rightarrow> prefix (map passed_of e1) ps1 | Inr _ \<Rightarrow> map passed_of e1 = ps1"
    unfolding passes_def by blast
  obtain r w' where mw: "m w = (r, w')" by (cases "m w")
  show "\<exists>ext. trace (snd (seq m f w)) = trace w @ ext \<and>
          (case fst (seq m f w) of
             Inl _ \<Rightarrow> prefix (map passed_of ext) (ps1 @ ps2)
           | Inr _ \<Rightarrow> map passed_of ext = ps1 @ ps2)"
  proof (cases r)
    case (Inl e)
    with mw e1 c1 show ?thesis
      by (auto simp: seq_def intro!: exI[of _ e1])
  next
    case (Inr x)
    from f[of x] obtain e2 where e2: "trace (snd (f x w')) = trace w' @ e2"
      and c2: "case fst (f x w') of Inl _ \<Rightarrow> prefix (map passed_of e2) ps2 | Inr _ \<Rightarrow> map passed_of e2 = ps2"
      unfolding passes_def by blast
    from mw Inr e1 c1 e2 c2 show ?thesis
      by (auto simp: seq_def intro!: exI[of _ "e1 @ e2"] split: sum.splits)
  qed
qed

lemma passes_then:
  "passes m [] \<Longrightarrow> (\<And>x. passes (f x) ps) \<Longrightarrow> passes (seq m f) ps"
  using passes_seq[of m "[]" f ps] by simp

lemma passes_call:
  "passes m [a] \<Longrightarrow> (\<And>x. passes (f x) ps) \<Longrightarrow> passes (seq m f) (a # ps)"
  using passes_seq[of m "[a]" f ps] by simp

lemma passes_prod:
  "(\<And>a b. passes (f a b) ps) \<Longrightarrow> passes (case_prod f x) ps"
  by (cases x) simp

lemma passes_hyperparameters:
  "passes (hyperparameters_cell H R t)
     [Creates (map_of (hyperparameters_kwargs H t) ''training_file'')
              (map_of (hyperparameters_kwargs H t) ''validation_file'')]"
  unfolding hyperparameters_cell_def
  by ((rule passes_call, rule passes_remote) | (rule passes_then, rule passes_local)
      | rule passes_local | rule passes_remote)+

lemma passes_status: "passes (status_cell R c jid) [Retrieves jid]"
  unfolding status_cell_def
  by ((rule passes_call, rule passes_remote) | (rule passes_then, rule passes_local)
      | rule passes_local | rule passes_remote)+

lemma passes_events: "passes (events_cell R c jid) [ListsEvents jid]"
  unfolding events_cell_def
  by ((rule passes_call, rule passes_remote) | (rule passes_then, rule passes_local)
      | rule passes_local | rule passes_remote)+

lemma passes_checkpoints: "passes (checkpoints_cell R c jid) [ListsEvents jid]"
  unfolding checkpoints_cell_def
  by ((rule passes_call, rule passes_remote) | (rule passes_then, rule passes_local)
      | rule passes_local | rule passes_remote)+

lemma passes_put: "passes (put_and_print R q) [DeploysModel (model_name q)]"
  unfolding put_and_print_def
  by ((rule passes_call, rule passes_remote) | (rule passes_then, rule passes_local)
      | rule passes_local | rule passes_remote)+

lemma passes_cross_tenant: "passes (cross_tenant_cell R) [DeploysModel (model_name cross_tenant_request)]"
  unfolding cross_tenant_cell_def
  by ((rule passes_call, rule passes_remote) | (rule passes_then, rule passes_local)
      | rule passes_local | rule passes_remote)+

lemma passes_use: "passes (use_cell H R) [Other]"
  unfolding use_cell_def
  by ((rule passes_call, rule passes_remote) | (rule passes_then, rule passes_local)
      | rule passes_local | rule passes_remote)+

lemma passes_analysis: "passes (analysis_cell H R c jid b) [Retrieves jid, Other, Other]"
  unfolding analysis_cell_def
  by ((rule passes_call, rule passes_remote) | (rule passes_then, rule passes_local)
      | rule passes_local | rule passes_remote)+

lemma observed_append:
  "uploaded (xs @ ys) = uploaded xs @ uploaded ys"
  "created (xs @ ys) = created xs @ created ys"
  by (simp_all add: uploaded_def created_def)

lemma observed_Cons:
  "uploaded (a # xs) = uploaded1 a @ uploaded xs"
  "created (a # xs) = created1 a @ created xs"
  by (simp_all add: uploaded_def created_def)

lemma observed_Nil:
  "uploaded [] = []" "created [] = []"
  by (simp_all add: uploaded_def created_def)

lemma passed_not_upload:
  assumes "Uploads \<notin> set (map passed_of ext)"
  shows "uploaded ext = []"
  using assms
proof (induction ext)
  case Nil
  show ?case by (simp add: observed_Nil)
next
  case (Cons a ext)
  then show ?case by (cases a) (simp_all add: observed_Cons)
qed

lemma short_prefix:
  assumes "length xs \<le> 2"
  shows "\<exists>a b. prefix xs [a, b]"
proof (cases xs)
  case Nil
  then show ?thesis by simp
next
  case (Cons a ys)
  show ?thesis
  proof (cases ys)
    case Nil
    with Cons show ?thesis by simp
  next
    case (Cons b zs)
    with \<open>xs = a # ys\<close> assms show ?thesis by simp
  qed
qed

text \<open>The upload cell, started on an empty trace.\<close>

lemma upload_cell_passed:
  assumes "trace w = []" and "upload_cell H R w = (r, w')"
  shows "created (trace w') = [] \<and> length (uploaded (trace w')) \<le> 2 \<and>
         (case r of
            Inl _ \<Rightarrow> prefix (map passed_of (trace w')) [Uploads, Uploads]
          | Inr (c, t, v) \<Rightarrow> uploaded (trace w') = [t, v] \<and> map passed_of (trace w') = [Uploads, Uploads])"
  using assms
  by (auto simp: upload_cell_def prog_defs Let_def uploaded_def created_def
      split: option.splits sum.splits)

lemma create_cell_passed:
  assumes "create_cell H R c t v w = (r, w')"
  shows "\<exists>a. trace w' = trace w @ [a] \<and> uploaded1 a = [] \<and>
           passed_of a = Creates (Some (JStr t)) (Some (JStr v)) \<and>
           (case r of Inl _ \<Rightarrow> True | Inr jid \<Rightarrow> created1 a = [jid])"
  using assms
  by (auto simp: create_cell_def prog_defs Let_def create_kwargs_def split: sum.splits)

text \<open>The cells after the first job creation.\<close>

lemma passes_rest:
  "passes
     (seq (hyperparameters_cell H R t) (\<lambda>(client, _).
      seq (status_cell R client jid) (\<lambda>_.
      seq (events_cell R client jid) (\<lambda>_.
      seq (checkpoints_cell R client jid) (\<lambda>_.
      seq (deploy_cell H R n1) (\<lambda>_.
      seq (cross_region_cell H R n2) (\<lambda>_.
      seq (cross_tenant_cell R) (\<lambda>_.
      seq (use_cell H R) (\<lambda>client.
      analysis_cell H R client jid None)))))))))
     (drop 3 (script t v jid n1 n2))"
proof -
  have "passes
     (seq (hyperparameters_cell H R t) (\<lambda>(client, _).
      seq (status_cell R client jid) (\<lambda>_.
      seq (events_cell R client jid) (\<lambda>_.
      seq (checkpoints_cell R client jid) (\<lambda>_.
      seq (deploy_cell H R n1) (\<lambda>_.
      seq (cross_region_cell H R n2) (\<lambda>_.
      seq (cross_tenant_cell R) (\<lambda>_.
      seq (use_cell H R) (\<lambda>client.
      analysis_cell H R client jid None)))))))))
     ([Creates (map_of (hyperparameters_kwargs H t) ''training_file'')
               (map_of (hyperparameters_kwargs H t) ''validation_file'')] @
      [Retrieves jid] @ [ListsEvents jid] @ [ListsEvents jid] @
      [DeploysModel (model_name (deploy_request H n1))] @
      [DeploysModel (model_name (cross_region_request H n2))] @
      [DeploysModel (model_name cross_tenant_request)] @
      [Other] @ [Retrieves jid, Other, Other])"
    unfolding deploy_cell_def cross_region_cell_def
    by (intro passes_seq passes_prod passes_hyperparameters passes_status passes_events
        passes_checkpoints passes_put passes_cross_tenant passes_use passes_analysis)
  then show ?thesis
    by (simp add: script_def hyperparameters_kwargs_def model_name_def
        deploy_body cross_region_body cross_tenant_body)
qed

text \<open>C3 as stated fails. In the run of the cells as printed, the job retrieved
  twice has the fine-tuned model \<open>gpt-35-turbo-0613.ft-b044a9d3cf9c4228b5d393567f693b83\<close>,
  and none of the three deployment bodies names it: two carry the placeholder
  text, the third the literal of the cross-tenant cell.\<close>

theorem deployment_name_counterexample:
  "retrieved_models (trace (snd demo_run)) =
     [Some ''gpt-35-turbo-0613.ft-b044a9d3cf9c4228b5d393567f693b83'',
      Some ''gpt-35-turbo-0613.ft-b044a9d3cf9c4228b5d393567f693b83''] \<and>
   deployed_names (trace (snd demo_run)) =
     [Some (JStr ''<fine_tuned_model>''), Some (JStr ''<FINE_TUNED_MODEL_NAME>''),
      Some (JStr ''gpt-4o-mini-2024-07-18.ft-f8838e7c6d4a4cbe882a002815758510'')] \<and>
   Some (JStr ''gpt-35-turbo-0613.ft-b044a9d3cf9c4228b5d393567f693b83'')
     \<notin> set (deployed_names (trace (snd demo_run)))"
  by (simp add: demo_run_trace retrieved_models_def deployed_names_def demo_job_def model_name_def
      deploy_body cross_region_body cross_tenant_body fine_tuned_model_def)

text \<open>C3, amended. Run the notebook from an empty trace, on any host and against
  any remote side. There are file IDs \<open>t\<close>, \<open>v\<close> and a job ID \<open>jid\<close> such that the
  uploads returned \<open>t\<close> and then \<open>v\<close>, the first job creation returned \<open>jid\<close> (each
  as far as the run got), and the calls of the run pass on, call by call and in
  this order, as far as the run got: nothing for the two uploads; \<open>training_file = t\<close>
  and \<open>validation_file = v\<close> for the first job creation; \<open>training_file = t\<close> and no
  \<open>validation_file\<close> for the second; \<open>jid\<close> for the status retrieve, the events
  call and the checkpoints call; the model name \<open>n1\<close> put in the placeholder of the
  same-region cell, then the name \<open>n2\<close> put in the placeholder of the cross-region
  cell, then the literal of the cross-tenant cell, none of them read from a
  response; nothing for the chat completion; \<open>jid\<close> for the retrieve of the
  analysis cell; nothing for its two file calls. The job returned by the second
  creation is used nowhere. No call follows a failed call, so an identifier that
  is passed on was returned before. A run that ends without exception makes all
  fourteen calls.\<close>

theorem notebook_identifier_threading:
  "\<exists>t v jid.
     prefix (uploaded (trace (snd (notebook H R n1 n2 (world0 files))))) [t, v] \<and>
     prefix (take 1 (created (trace (snd (notebook H R n1 n2 (world0 files)))))) [jid] \<and>
     prefix (map passed_of (trace (snd (notebook H R n1 n2 (world0 files))))) (script t v jid n1 n2) \<and>
     list_all (\<lambda>c. \<not> failed c) (butlast (trace (snd (notebook H R n1 n2 (world0 files))))) \<and>
     (fst (notebook H R n1 n2 (world0 files)) = Inr () \<longrightarrow>
        uploaded (trace (snd (notebook H R n1 n2 (world0 files)))) = [t, v] \<and>
        take 1 (created (trace (snd (notebook H R n1 n2 (world0 files))))) = [jid] \<and>
        map passed_of (trace (snd (notebook H R n1 n2 (world0 files)))) = script t v jid n1 n2)"
proof -
  let ?run = "notebook H R n1 n2 (world0 files)"
  let ?tr = "trace (snd ?run)"
  define rest where "rest = (\<lambda>t job_id.
     seq (hyperparameters_cell H R t) (\<lambda>(client, _).
     seq (status_cell R client job_id) (\<lambda>_.
     seq (events_cell R client job_id) (\<lambda>_.
     seq (checkpoints_cell R client job_id) (\<lambda>_.
     seq (deploy_cell H R n1) (\<lambda>_.
     seq (cross_region_cell H R n2) (\<lambda>_.
     seq (cross_tenant_cell R) (\<lambda>_.
     seq (use_cell H R) (\<lambda>client.
     analysis_cell H R client job_id None)))))))))"
  have nb: "notebook H R n1 n2 =
      seq (upload_cell H R) (\<lambda>(client, t, v). seq (create_cell H R client t v) (rest t))"
    unfolding notebook_def rest_def ..
  have rest_passes: "passes (rest t jid) (drop 3 (script t v jid n1 n2))" for t v jid
    unfolding rest_def by (rule passes_rest)
  have ok: "list_all (\<lambda>c. \<not> failed c) (butlast ?tr)"
    using single_shot_notebook[of H R n1 n2, unfolded single_shot_def, rule_format, of "world0 files"]
    by (auto simp: world0_def list_all_iff split: sum.splits dest: in_set_butlastD)
  have w0: "trace (world0 files) = []" by (simp add: world0_def)
  obtain r1 w1 where u: "upload_cell H R (world0 files) = (r1, w1)"
    by (cases "upload_cell H R (world0 files)")
  note up = upload_cell_passed[OF w0 u]
  show ?thesis
  proof (cases r1)
    case (Inl e)
    with u have run: "?run = (Inl e, w1)" by (simp add: nb seq_def)
    from up obtain t v where tv: "prefix (uploaded (trace w1)) [t, v]"
      using short_prefix by blast
    from up Inl have "prefix (map passed_of (trace w1)) (script t v [] n1 n2)"
      by (simp add: script_def) (metis append_Cons append_Nil prefix_order.dual_order.trans prefix_prefix)
    with tv up ok run show ?thesis
      by (intro exI[of _ t] exI[of _ v] exI[of _ "[]"]) simp
  next
    case (Inr x)
    obtain c t v where x: "x = (c, t, v)" by (cases x)
    from up Inr x have upl: "uploaded (trace w1) = [t, v]"
      and pw1: "map passed_of (trace w1) = [Uploads, Uploads]"
      and cw1: "created (trace w1) = []"
      by simp_all
    obtain r2 w2 where cr: "create_cell H R c t v w1 = (r2, w2)"
      by (cases "create_cell H R c t v w1")
    from create_cell_passed[OF cr] obtain a
      where tr2: "trace w2 = trace w1 @ [a]"
        and ua: "uploaded1 a = []"
        and pa: "passed_of a = Creates (Some (JStr t)) (Some (JStr v))"
        and ja: "case r2 of Inl _ \<Rightarrow> True | Inr jid \<Rightarrow> created1 a = [jid]"
      by blast
    show ?thesis
    proof (cases r2)
      case (Inl e)
      with u cr \<open>r1 = Inr x\<close> x have run: "?run = (Inl e, w2)" by (simp add: nb seq_def)
      obtain jid where jid: "prefix (take 1 (created (trace w2))) [jid]"
        by (cases "created1 a") (simp_all add: tr2 observed_append observed_Cons observed_Nil cw1)
      have "uploaded (trace w2) = [t, v]"
        by (simp add: tr2 observed_append observed_Cons observed_Nil upl ua)
      moreover have "prefix (map passed_of (trace w2)) (script t v jid n1 n2)"
        by (simp add: tr2 pw1 pa script_def)
      ultimately show ?thesis
        using jid ok run by (intro exI[of _ t] exI[of _ v] exI[of _ jid]) simp
    next
      case (Inr jid)
      with ja have cr1: "created1 a = [jid]" by simp
      from rest_passes[of t jid v] obtain ext
        where ext: "trace (snd (rest t jid w2)) = trace w2 @ ext"
          and pe: "case fst (rest t jid w2) of
                     Inl _ \<Rightarrow> prefix (map passed_of ext) (drop 3 (script t v jid n1 n2))
                   | Inr _ \<Rightarrow> map passed_of ext = drop 3 (script t v jid n1 n2)"
        unfolding passes_def by blast
      from u cr \<open>r1 = Inr x\<close> x Inr have run: "?run = rest t jid w2"
        by (simp add: nb seq_def)
      with ext tr2 have tr: "?tr = trace w1 @ a # ext" by simp
      from pe have pre: "prefix (map passed_of ext) (drop 3 (script t v jid n1 n2))"
        by (cases "fst (rest t jid w2)") simp_all
      then have "set (map passed_of ext) \<subseteq> set (drop 3 (script t v jid n1 n2))"
        by (rule set_mono_prefix)
      then have "Uploads \<notin> set (map passed_of ext)"
        by (auto simp: script_def)
      then have ue: "uploaded ext = []" by (rule passed_not_upload)
      have head: "take 3 (script t v jid n1 n2) = [Uploads, Uploads, Creates (Some (JStr t)) (Some (JStr v))]"
        by (simp add: script_def)
      have split: "script t v jid n1 n2 = take 3 (script t v jid n1 n2) @ drop 3 (script t v jid n1 n2)"
        by simp
      have upl': "uploaded ?tr = [t, v]"
        by (simp add: tr observed_append observed_Cons upl ua ue)
      have cre': "take 1 (created ?tr) = [jid]"
        by (simp add: tr observed_append observed_Cons cw1 cr1)
      have pas: "map passed_of ?tr = take 3 (script t v jid n1 n2) @ map passed_of ext"
        by (simp add: tr pw1 pa head)
      from pre have pas': "prefix (map passed_of ?tr) (script t v jid n1 n2)"
        by (subst split) (simp only: pas same_prefix_prefix)
      have fin: "fst ?run = Inr () \<longrightarrow> map passed_of ?tr = script t v jid n1 n2"
      proof
        assume "fst ?run = Inr ()"
        with pe run have "map passed_of ext = drop 3 (script t v jid n1 n2)" by simp
        with pas show "map passed_of ?tr = script t v jid n1 n2" by simp
      qed
      from upl' cre' pas' ok fin show ?thesis
        by (intro exI[of _ t] exI[of _ v] exI[of _ jid]) simp
    qed
  qed
qed

theorem notebook_identifier_threading_witness:
  "fst demo_run = Inr () \<and>
   uploaded (trace (snd demo_run)) = [''file-training_set.jsonl'', ''file-validation_set.jsonl''] \<and>
   created (trace (snd demo_run)) = [''ftjob-1'', ''ftjob-2''] \<and>
   map passed_of (trace (snd demo_run)) =
     script ''file-training_set.jsonl'' ''file-validation_set.jsonl'' ''ftjob-1''
       ''<fine_tuned_model>'' ''<FINE_TUNED_MODEL_NAME>'' \<and>
   map passed_of (trace (snd demo_run)) =
     [Uploads, Uploads,
      Creates (Some (JStr ''file-training_set.jsonl'')) (Some (JStr ''file-validation_set.jsonl'')),
      Creates (Some (JStr ''file-training_set.jsonl'')) None,
      Retrieves ''ftjob-1'', ListsEvents ''ftjob-1'', ListsEvents ''ftjob-1'',
      DeploysModel (Some (JStr ''<fine_tuned_model>'')),
      DeploysModel (Some (JStr ''<FINE_TUNED_MODEL_NAME>'')),
      DeploysModel (Some (JStr ''gpt-4o-mini-2024-07-18.ft-f8838e7c6d4a4cbe882a002815758510'')),
      Other, Retrieves ''ftjob-1'', Other, Other]"
proof -
  have obs:
    "uploaded (trace (snd demo_run)) = [''file-training_set.jsonl'', ''file-validation_set.jsonl'']"
    "created (trace (snd demo_run)) = [''ftjob-1'', ''ftjob-2'']"
    by (simp_all add: demo_run_trace uploaded_def created_def demo_job_def)
  from notebook_identifier_threading
      [where H = demo_host and R = "demo_remote ''succeeded'' [''file-results'']"
         and ?n1.0 = "''<fine_tuned_model>''" and ?n2.0 = "''<FINE_TUNED_MODEL_NAME>''"
         and files = demo_files]
  obtain t v jid where
    "uploaded (trace (snd demo_run)) = [t, v]"
    "take 1 (created (trace (snd demo_run))) = [jid]"
    "map passed_of (trace (snd demo_run)) = script t v jid ''<fine_tuned_model>'' ''<FINE_TUNED_MODEL_NAME>''"
    unfolding demo_run_def [symmetric] using demo_run_result by auto
  with obs have
    "map passed_of (trace (snd demo_run)) =
       script ''file-training_set.jsonl'' ''file-validation_set.jsonl'' ''ftjob-1''
         ''<fine_tuned_model>'' ''<FINE_TUNED_MODEL_NAME>''"
    by simp
  with obs demo_run_result show ?thesis
    by (simp add: script_def fine_tuned_model_def)
qed

end
